theory Spec2Isabelle
  imports Main "HOL-Library.Sublist"
begin

section \<open>Python values used by ripper.py\<close>

text \<open>
  A Python \<^verbatim>\<open>str\<close> is a sequence of Unicode code points, so a string is a list of
  natural numbers (one per code point); \<open>py_ord\<close> is the code point of a character
  and \<open>str\<close> turns a literal into that form.
  A \<^verbatim>\<open>bytearray\<close> is a list of numbers below 256.
\<close>

type_synonym pystr = "nat list"
type_synonym bytearray = "nat list"

definition py_ord :: "char \<Rightarrow> nat" where
  "py_ord c = of_char c"

definition str :: "string \<Rightarrow> pystr" where
  "str s = map py_ord s"

text \<open>
  The exceptions that can occur. \<^verbatim>\<open>UnicodeDecodeError\<close> is a subclass of
  \<^verbatim>\<open>ValueError\<close>, so \<^verbatim>\<open>except ValueError\<close> catches both; \<^verbatim>\<open>AttributeError\<close>
  (reading an attribute that was never assigned) is not caught by it.
\<close>

datatype exn = ValueError | UnicodeDecodeError | AttributeError

fun isinstance_ValueError :: "exn \<Rightarrow> bool" where
  "isinstance_ValueError ValueError = True"
| "isinstance_ValueError UnicodeDecodeError = True"
| "isinstance_ValueError AttributeError = False"

subsection \<open>bytearray.append and bytes.decode\<close>

text \<open>\<^verbatim>\<open>b.append(n)\<close> raises ValueError unless \<open>n\<close> is in \<open>range(0, 256)\<close>.\<close>

definition bytearray_append :: "bytearray \<Rightarrow> nat \<Rightarrow> exn + bytearray" where
  "bytearray_append b n = (if n < 256 then Inr (b @ [n]) else Inl ValueError)"

definition is_cont :: "nat \<Rightarrow> bool" where
  "is_cont b = (128 \<le> b \<and> b \<le> 191)"

definition push :: "nat \<Rightarrow> exn + pystr \<Rightarrow> exn + pystr" where
  "push c r = (case r of Inl e \<Rightarrow> Inl e | Inr s \<Rightarrow> Inr (c # s))"

text \<open>
  \<^verbatim>\<open>b.decode()\<close>: strict UTF-8. A lead byte below 0x80 is one code point; 0xC2..0xDF
  opens a two-byte form, 0xE0..0xEF a three-byte form (0xE0 needs a second byte from 0xA0,
  0xED one up to 0x9F, which excludes overlong forms and surrogates), 0xF0..0xF4 a
  four-byte form (0xF0 needs a second byte from 0x90, 0xF4 one up to 0x8F); every other
  byte sequence raises UnicodeDecodeError.
\<close>

fun decode :: "bytearray \<Rightarrow> exn + pystr" where
  "decode [] = Inr []"
| "decode (b0 # bs) =
    (if b0 < 128 then push b0 (decode bs)
     else if 194 \<le> b0 \<and> b0 \<le> 223 then
       (case bs of
          b1 # r \<Rightarrow>
            if is_cont b1 then push ((b0 - 192) * 64 + (b1 - 128)) (decode r)
            else Inl UnicodeDecodeError
        | [] \<Rightarrow> Inl UnicodeDecodeError)
     else if 224 \<le> b0 \<and> b0 \<le> 239 then
       (case bs of
          b1 # b2 # r \<Rightarrow>
            if (if b0 = 224 then 160 else 128) \<le> b1
               \<and> b1 \<le> (if b0 = 237 then 159 else 191) \<and> is_cont b2
            then push (((b0 - 224) * 64 + (b1 - 128)) * 64 + (b2 - 128)) (decode r)
            else Inl UnicodeDecodeError
        | _ \<Rightarrow> Inl UnicodeDecodeError)
     else if 240 \<le> b0 \<and> b0 \<le> 244 then
       (case bs of
          b1 # b2 # b3 # r \<Rightarrow>
            if (if b0 = 240 then 144 else 128) \<le> b1
               \<and> b1 \<le> (if b0 = 244 then 143 else 191) \<and> is_cont b2 \<and> is_cont b3
            then push ((((b0 - 240) * 64 + (b1 - 128)) * 64 + (b2 - 128)) * 64 + (b3 - 128))
                   (decode r)
            else Inl UnicodeDecodeError
        | _ \<Rightarrow> Inl UnicodeDecodeError)
     else Inl UnicodeDecodeError)"

subsection \<open>str methods\<close>

text \<open>
  \<^verbatim>\<open>str.strip()\<close> removes the characters for which \<^verbatim>\<open>str.isspace\<close> holds: the
  ASCII ones (tab to carriage return, the separators 0x1C..0x1F, the space) and the
  Unicode white space beyond them.
\<close>

definition py_isspace :: "nat \<Rightarrow> bool" where
  "py_isspace c =
     ((9 \<le> c \<and> c \<le> 13) \<or> (28 \<le> c \<and> c \<le> 32) \<or> c = 133 \<or> c = 160 \<or> c = 5760
      \<or> (8192 \<le> c \<and> c \<le> 8202) \<or> c = 8232 \<or> c = 8233 \<or> c = 8239 \<or> c = 8287
      \<or> c = 12288)"

definition py_strip :: "pystr \<Rightarrow> pystr" where
  "py_strip s = rev (dropWhile py_isspace (rev (dropWhile py_isspace s)))"

text \<open>\<^verbatim>\<open>s.lstrip(chars)\<close> and \<^verbatim>\<open>s.rstrip(chars)\<close> remove the characters of \<open>chars\<close>.\<close>

definition py_lstrip :: "pystr \<Rightarrow> pystr \<Rightarrow> pystr" where
  "py_lstrip s chars = dropWhile (\<lambda>c. c \<in> set chars) s"

definition py_rstrip :: "pystr \<Rightarrow> pystr \<Rightarrow> pystr" where
  "py_rstrip s chars = rev (dropWhile (\<lambda>c. c \<in> set chars) (rev s))"

definition py_startswith :: "pystr \<Rightarrow> pystr \<Rightarrow> bool" where
  "py_startswith s p = (take (length p) s = p)"

text \<open>\<^verbatim>\<open>sub in s\<close>: \<open>sub\<close> occurs somewhere in \<open>s\<close>.\<close>

fun py_in :: "pystr \<Rightarrow> pystr \<Rightarrow> bool" where
  "py_in sub [] = (sub = [])"
| "py_in sub (c # cs) = (take (length sub) (c # cs) = sub \<or> py_in sub cs)"

text \<open>
  \<^verbatim>\<open>s.split(sep)\<close> for a non-empty separator: cut at every occurrence, found from the
  left without overlap. \<open>cur\<close> is the piece read since the last cut. (Python raises on
  an empty separator; the program only passes literals.)
\<close>

fun split_from :: "pystr \<Rightarrow> pystr \<Rightarrow> pystr \<Rightarrow> pystr list" where
  "split_from sep cur [] = [cur]"
| "split_from sep cur (c # cs) =
    (if sep \<noteq> [] \<and> take (length sep) (c # cs) = sep
     then cur # split_from sep [] (drop (length sep) (c # cs))
     else split_from sep (cur @ [c]) cs)"

definition py_split :: "pystr \<Rightarrow> pystr \<Rightarrow> pystr list" where
  "py_split s sep = split_from sep [] s"

text \<open>\<^verbatim>\<open>s.split(sep, 1)\<close>: cut at the first occurrence only.\<close>

fun split1_from :: "pystr \<Rightarrow> pystr \<Rightarrow> pystr \<Rightarrow> pystr list" where
  "split1_from sep cur [] = [cur]"
| "split1_from sep cur (c # cs) =
    (if sep \<noteq> [] \<and> take (length sep) (c # cs) = sep
     then [cur, drop (length sep) (c # cs)]
     else split1_from sep (cur @ [c]) cs)"

definition py_split1 :: "pystr \<Rightarrow> pystr \<Rightarrow> pystr list" where
  "py_split1 s sep = split1_from sep [] s"

text \<open>
  \<^verbatim>\<open>s.rsplit(sep, 1)\<close>: cut at the last occurrence only, which is the first occurrence
  of the reversed separator in the reversed string.
\<close>

definition py_rsplit1 :: "pystr \<Rightarrow> pystr \<Rightarrow> pystr list" where
  "py_rsplit1 s sep = rev (map rev (py_split1 (rev s) (rev sep)))"

text \<open>
  \<^verbatim>\<open>str.lower()\<close> on the capital letters A..Z; the program applies it to the member
  names of the enumeration only.
\<close>

definition py_lower :: "pystr \<Rightarrow> pystr" where
  "py_lower s = map (\<lambda>c. if 65 \<le> c \<and> c \<le> 90 then c + 32 else c) s"

subsection \<open>Formatting numbers\<close>

definition digit_char :: "nat \<Rightarrow> nat" where
  "digit_char d = (if d < 10 then 48 + d else 87 + d)"

text \<open>\<^verbatim>\<open>"%i" % n\<close> for \<open>n \<ge> 0\<close>: the decimal digits.\<close>

function format_i :: "nat \<Rightarrow> pystr" where
  "format_i n = (if n < 10 then [digit_char n] else format_i (n div 10) @ [digit_char (n mod 10)])"
  by pat_completeness auto
termination
  by (relation "measure id") auto

function hex_digits :: "nat \<Rightarrow> pystr" where
  "hex_digits n =
     (if n < 16 then [digit_char n] else hex_digits (n div 16) @ [digit_char (n mod 16)])"
  by pat_completeness auto
termination
  by (relation "measure id") auto

text \<open>\<^verbatim>\<open>hex(n)\<close> for \<open>n \<ge> 0\<close>: \<^verbatim>\<open>0x\<close> and the lower-case hexadecimal digits.\<close>

definition py_hex :: "nat \<Rightarrow> pystr" where
  "py_hex n = str ''0x'' @ hex_digits n"

subsection \<open>dict\<close>

text \<open>
  A \<^verbatim>\<open>dict\<close> keeps its keys in insertion order; assigning to a key that is present
  replaces the value where the key stands. It is an association list with distinct keys.
\<close>

type_synonym pydict = "(pystr \<times> pystr) list"

fun setitem :: "pydict \<Rightarrow> pystr \<Rightarrow> pystr \<Rightarrow> pydict" where
  "setitem [] k v = [(k, v)]"
| "setitem ((k', v') # d) k v = (if k' = k then (k, v) # d else (k', v') # setitem d k v)"

text \<open>\<^verbatim>\<open>d.update(other)\<close> assigns the items of \<open>other\<close> in their order.\<close>

fun dict_update :: "pydict \<Rightarrow> pydict \<Rightarrow> pydict" where
  "dict_update d [] = d"
| "dict_update d ((k, v) # other) = dict_update (setitem d k v) other"

section \<open>NamespaceEnum\<close>

datatype NamespaceEnum = NONE | STD | COCOS2D | PUGI

text \<open>\<^verbatim>\<open>auto()\<close> numbers the members of an \<^verbatim>\<open>IntEnum\<close> from 1 in the order they are declared.\<close>

definition NamespaceEnum_members :: "NamespaceEnum list" where
  "NamespaceEnum_members = [NONE, STD, COCOS2D, PUGI]"

fun index_of :: "'a \<Rightarrow> 'a list \<Rightarrow> nat" where
  "index_of x [] = 0"
| "index_of x (y # ys) = (if x = y then 0 else Suc (index_of x ys))"

definition NamespaceEnum_value :: "NamespaceEnum \<Rightarrow> int" where
  "NamespaceEnum_value e = 1 + int (index_of e NamespaceEnum_members)"

fun NamespaceEnum_name :: "NamespaceEnum \<Rightarrow> pystr" where
  "NamespaceEnum_name NONE = str ''NONE''"
| "NamespaceEnum_name STD = str ''STD''"
| "NamespaceEnum_name COCOS2D = str ''COCOS2D''"
| "NamespaceEnum_name PUGI = str ''PUGI''"

section \<open>OffsetCounter\<close>

text \<open>Both fields start at 0 and are only ever incremented.\<close>

record OffsetCounter =
  i :: nat
  stack_val :: nat

definition OffsetCounter_init :: OffsetCounter where
  "OffsetCounter_init = \<lparr>i = 0, stack_val = 0\<rparr>"

text \<open>\<^verbatim>\<open>next\<close> returns the slot name and the counter as it has left it.\<close>

definition OffsetCounter_next :: "OffsetCounter \<Rightarrow> pystr \<times> OffsetCounter" where
  "OffsetCounter_next self =
     (if i self < 4 then (str ''r'' @ format_i (i self), self\<lparr>i := i self + 1\<rparr>)
      else (str ''STACK['' @ py_hex (stack_val self * 4) @ str '']'',
            self\<lparr>stack_val := stack_val self + 1\<rparr>))"

section \<open>split\_cpp\_args\<close>

text \<open>
  The loop over the characters of \<open>data\<close>, with the list \<open>args\<close>, the buffer \<open>b\<close> and the
  counter \<open>followed_by\<close> as its state. A character of \<open>data\<close> is its code point, so
  \<^verbatim>\<open>ord(d)\<close> is \<open>d\<close> itself.
\<close>

fun split_loop :: "pystr \<Rightarrow> pystr list \<Rightarrow> bytearray \<Rightarrow> int \<Rightarrow> exn + (pystr list \<times> bytearray)" where
  "split_loop [] args b followed_by = Inr (args, b)"
| "split_loop (d # ds) args b followed_by =
    (if d = py_ord CHR ''<'' then
       (case bytearray_append b d of
          Inl e \<Rightarrow> Inl e
        | Inr b' \<Rightarrow> split_loop ds args b' (followed_by + 1))
     else if d = py_ord CHR ''>'' then
       (case bytearray_append b d of
          Inl e \<Rightarrow> Inl e
        | Inr b' \<Rightarrow> split_loop ds args b' (followed_by - 1))
     else if d = py_ord CHR '','' \<and> followed_by = 0 then
       (case decode b of
          Inl e \<Rightarrow> Inl e
        | Inr s \<Rightarrow> split_loop ds (args @ [py_strip s]) [] followed_by)
     else
       (case bytearray_append b d of
          Inl e \<Rightarrow> Inl e
        | Inr b' \<Rightarrow> split_loop ds args b' followed_by))"

definition split_cpp_args :: "pystr \<Rightarrow> exn + pystr list" where
  "split_cpp_args data =
     (case split_loop data [] [] 0 of
        Inl e \<Rightarrow> Inl e
      | Inr (args, b) \<Rightarrow>
          if b \<noteq> [] then
            (case decode b of Inl e \<Rightarrow> Inl e | Inr s \<Rightarrow> Inr (args @ [py_strip s]))
          else Inr args)"

section \<open>Function\<close>

text \<open>
  The fields declared without a default (\<open>demangled_func\<close>, \<open>namespaceEnum\<close>,
  \<open>namespaceName\<close>) are unassigned until the post-init hook assigns them: \<open>None\<close> stands
  for an unassigned attribute. \<open>args\<close> and \<open>arg_offsets\<close> start from their factories.
\<close>

record Function =
  mangled_func :: pystr
  demangled_func :: "pystr option"
  args :: "pystr list"
  namespaceEnum :: "NamespaceEnum option"
  namespaceName :: "pystr option"
  arg_offsets :: pydict

definition find_namespace :: "pystr \<Rightarrow> NamespaceEnum" where
  "find_namespace func =
     (if py_startswith func (str ''cococs2d::'') then COCOS2D
      else if py_startswith func (str ''std::'') then STD
      else if py_startswith func (str ''pugi::'') then PUGI
      else NONE)"

definition is_this_call :: "Function \<Rightarrow> pystr \<Rightarrow> exn + bool" where
  "is_this_call self func =
     (case namespaceEnum self of
        None \<Rightarrow> Inl AttributeError
      | Some ns \<Rightarrow>
          if ns \<noteq> NONE \<or> length (py_split func (str ''::'')) \<ge> 2 then Inr True
          else Inr False)"

definition demangle_arguments :: "pystr \<Rightarrow> exn + pystr list" where
  "demangle_arguments func =
     (if py_in (str ''{'') func then
        (let func' = last (py_split1 (py_rstrip (py_lstrip func (str ''{'')) (str ''}'')) (str '',''));
             data = hd (py_rsplit1 (last (py_split1 func' (str ''(''))) (str '')''))
         in split_cpp_args (py_rstrip data (str '')'')))
      else if py_in (str ''('') func then
        split_cpp_args (hd (py_rsplit1 (last (py_split1 func (str ''(''))) (str '')'')))
      else Inr [])"

text \<open>
  The truth value of a bound method object, which is what \<^verbatim>\<open>if self._is_this_call:\<close>
  tests: a method object defines neither \<^verbatim>\<open>__bool__\<close> nor \<^verbatim>\<open>__len__\<close>, so it is true
  whatever the method would return.
\<close>

definition bound_method_truth :: "(pystr \<Rightarrow> exn + bool) \<Rightarrow> bool" where
  "bound_method_truth m = True"

text \<open>
  The comprehension \<^verbatim>\<open>{counter.next(): a.strip() for a in self.args}\<close>, building the
  dict \<open>d\<close> item by item.
\<close>

fun offsets_comprehension :: "OffsetCounter \<Rightarrow> pystr list \<Rightarrow> pydict \<Rightarrow> pydict" where
  "offsets_comprehension counter [] d = d"
| "offsets_comprehension counter (a # as) d =
    (case OffsetCounter_next counter of
       (k, counter') \<Rightarrow> offsets_comprehension counter' as (setitem d k (py_strip a)))"

definition make_possible_arg_offsets :: "Function \<Rightarrow> pydict" where
  "make_possible_arg_offsets self =
     (let counter = OffsetCounter_init in
      if bound_method_truth (is_this_call self) then
        (case OffsetCounter_next counter of
           (k, counter') \<Rightarrow>
             dict_update (setitem [] k (str ''this''))
               (offsets_comprehension counter' (args self) []))
      else offsets_comprehension counter (args self) [])"

text \<open>The state in which the generated \<^verbatim>\<open>__init__\<close> hands the object to the hook.\<close>

definition Function_fields :: "pystr \<Rightarrow> Function" where
  "Function_fields mangled =
     \<lparr>mangled_func = mangled, demangled_func = None, args = [], namespaceEnum = None,
      namespaceName = None, arg_offsets = []\<rparr>"

text \<open>
  The body of the \<^verbatim>\<open>try\<close>, statement by statement: it returns the object as the last
  completed assignment left it, and the exception that stopped it, if any. The
  demangler is the external function \<open>demangle\<close>.
\<close>

definition try_body :: "(pystr \<Rightarrow> exn + pystr) \<Rightarrow> Function \<Rightarrow> Function \<times> exn option" where
  "try_body demangle self =
     (case demangle (mangled_func self) of
        Inl e \<Rightarrow> (self, Some e)
      | Inr d \<Rightarrow>
          (let self1 = self\<lparr>demangled_func := Some d\<rparr> in
           case demangle_arguments d of
             Inl e \<Rightarrow> (self1, Some e)
           | Inr a \<Rightarrow>
               (let self2 = self1\<lparr>args := a\<rparr>;
                    ns = find_namespace d;
                    self3 = self2\<lparr>namespaceEnum := Some ns\<rparr>;
                    self4 = self3\<lparr>namespaceName := Some (py_lower (NamespaceEnum_name ns))\<rparr>;
                    self5 = self4\<lparr>arg_offsets := make_possible_arg_offsets self4\<rparr>
                in (self5, None))))"

definition attrs_post_init :: "(pystr \<Rightarrow> exn + pystr) \<Rightarrow> Function \<Rightarrow> exn + Function" where
  "attrs_post_init demangle self =
     (case try_body demangle self of
        (self', None) \<Rightarrow> Inr self'
      | (self', Some e) \<Rightarrow>
          if isinstance_ValueError e then
            Inr (self'\<lparr>demangled_func := Some (str ''FAILED''), args := [],
                       namespaceEnum := Some NONE, namespaceName := Some (str ''none'')\<rparr>)
          else Inl e)"

text \<open>\<^verbatim>\<open>Function(func)\<close>.\<close>

definition Function_new :: "(pystr \<Rightarrow> exn + pystr) \<Rightarrow> pystr \<Rightarrow> exn + Function" where
  "Function_new demangle func = attrs_post_init demangle (Function_fields func)"

section \<open>ELF\<close>

text \<open>
  The field \<^verbatim>\<open>functions\<close> of the source is \<open>functions'\<close> here, the plain name being
  reserved.
\<close>

record ELF =
  functions' :: "Function list"
  version :: pystr

definition add_func :: "(pystr \<Rightarrow> exn + pystr) \<Rightarrow> ELF \<Rightarrow> pystr \<Rightarrow> exn + ELF" where
  "add_func demangle self func =
     (case Function_new demangle func of
        Inl e \<Rightarrow> Inl e
      | Inr f \<Rightarrow>
          if list_ex (\<lambda>a. py_startswith a (str ''std::__exception_ptr'')) (args f) then Inr self
          else
            (case demangled_func f of
               None \<Rightarrow> Inl AttributeError
             | Some dn \<Rightarrow>
                 if list_ex (py_startswith dn)
                      [str ''typeinfo name for '', str ''typeinfo for '', str ''{vtable'']
                 then Inr self
                 else Inr (self\<lparr>functions' := functions' self @ [f]\<rparr>)))"

text \<open>
  The loop of \<^verbatim>\<open>cli\<close> over the symbol names of the binary, in table order: a name
  that starts with \<^verbatim>\<open>_Z\<close> is handed to \<open>add_func\<close>.
\<close>

fun cli_symbols :: "(pystr \<Rightarrow> exn + pystr) \<Rightarrow> ELF \<Rightarrow> pystr list \<Rightarrow> exn + ELF" where
  "cli_symbols demangle elf [] = Inr elf"
| "cli_symbols demangle elf (name # names) =
    (if py_startswith name (str ''_Z'') then
       (case add_func demangle elf name of
          Inl e \<Rightarrow> Inl e
        | Inr elf' \<Rightarrow> cli_symbols demangle elf' names)
     else cli_symbols demangle elf names)"

text \<open>
  The value \<open>as_json\<close> hands to the encoder: \<^verbatim>\<open>asdict\<close> turns every record into a dict
  of its fields in declaration order (raising on an unassigned one), and the encoder
  writes a member of an \<^verbatim>\<open>IntEnum\<close> as its number.
\<close>

datatype json = JStr pystr | JInt int | JList "json list" | JObj "(pystr \<times> json) list"

definition asdict_Function :: "Function \<Rightarrow> exn + json" where
  "asdict_Function f =
     (case demangled_func f of
        None \<Rightarrow> Inl AttributeError
      | Some dn \<Rightarrow>
          (case namespaceEnum f of
             None \<Rightarrow> Inl AttributeError
           | Some ns \<Rightarrow>
               (case namespaceName f of
                  None \<Rightarrow> Inl AttributeError
                | Some nn \<Rightarrow>
                    Inr (JObj
                      [(str ''mangled_func'', JStr (mangled_func f)),
                       (str ''demangled_func'', JStr dn),
                       (str ''args'', JList (map JStr (args f))),
                       (str ''namespaceEnum'', JInt (NamespaceEnum_value ns)),
                       (str ''namespaceName'', JStr nn),
                       (str ''arg_offsets'', JObj (map (\<lambda>(k, v). (k, JStr v)) (arg_offsets f)))]))))"

fun asdict_all :: "Function list \<Rightarrow> exn + json list" where
  "asdict_all [] = Inr []"
| "asdict_all (f # fs) =
    (case asdict_Function f of
       Inl e \<Rightarrow> Inl e
     | Inr j \<Rightarrow> (case asdict_all fs of Inl e \<Rightarrow> Inl e | Inr js \<Rightarrow> Inr (j # js)))"

definition as_json :: "ELF \<Rightarrow> exn + json" where
  "as_json self =
     (case asdict_all (functions' self) of
        Inl e \<Rightarrow> Inl e
      | Inr js \<Rightarrow>
          Inr (JObj
            [(str ''functions'', JList js),
             (str ''total_functions'', JInt (int (length (functions' self)))),
             (str ''gd-version'', JStr (version self))]))"

section \<open>Formulations taken from the specification\<close>

text \<open>
  The slot the specification gives to the \<open>k\<close>-th request (counted from 0): a register
  name below 4, then the stack offsets in steps of 4.
\<close>

definition spec_slot :: "nat \<Rightarrow> pystr" where
  "spec_slot k =
     (if k < 4 then str ''r'' @ format_i k
      else str ''STACK['' @ py_hex (4 * (k - 4)) @ str '']'')"

text \<open>The counter after \<open>k\<close> requests, and the names that \<open>n\<close> further requests return.\<close>

definition counter_at :: "nat \<Rightarrow> OffsetCounter" where
  "counter_at k = \<lparr>i = min k 4, stack_val = k - 4\<rparr>"

fun issued :: "nat \<Rightarrow> OffsetCounter \<Rightarrow> pystr list" where
  "issued 0 counter = []"
| "issued (Suc n) counter =
    (case OffsetCounter_next counter of (k, counter') \<Rightarrow> k # issued n counter')"

text \<open>The record that a failed construction leaves: the sentinel and the empty fields.\<close>

definition failure_record :: "pystr \<Rightarrow> Function" where
  "failure_record m =
     \<lparr>mangled_func = m, demangled_func = Some (str ''FAILED''), args = [],
      namespaceEnum = Some NONE, namespaceName = Some (str ''none''), arg_offsets = []\<rparr>"

text \<open>
  Answers of the external demangler on a few symbols, for running the definitions on
  concrete input; any other name is rejected.
\<close>

definition sample_demangle :: "pystr \<Rightarrow> exn + pystr" where
  "sample_demangle m =
     (if m = str ''_Z3fooi'' then Inr (str ''foo(int)'')
      else if m = str ''_Z3barv'' then Inr (str ''bar()'')
      else if m = str ''_ZN7cococs2d9SomeClass6methodEi''
        then Inr (str ''cococs2d::SomeClass::method(int)'')
      else if m = str ''_ZTS3Foo'' then Inr (str ''typeinfo name for Foo'')
      else if m = str ''_ZTV3Foo'' then Inr (str ''{vtable(Foo)}'')
      else if m = str ''_Z1fNSt15__exception_ptr13exception_ptrE''
        then Inr (str ''f(std::__exception_ptr::exception_ptr)'')
      else Inl ValueError)"

text \<open>
  The exclusion policy in the specification's words: some argument begins with the
  exception-pointer prefix, or the demangled name begins with one of the three markers.
\<close>

definition spec_rejects :: "Function \<Rightarrow> bool" where
  "spec_rejects f =
     ((\<exists>a\<in>set (args f). prefix (str ''std::__exception_ptr'') a)
      \<or> (case demangled_func f of
            None \<Rightarrow> False
          | Some dn \<Rightarrow>
              prefix (str ''typeinfo name for '') dn \<or> prefix (str ''typeinfo for '') dn
              \<or> prefix (str ''{vtable'') dn))"

text \<open>The records built for the names that start with \<^verbatim>\<open>_Z\<close>, in table order.\<close>

definition constructed :: "(pystr \<Rightarrow> exn + pystr) \<Rightarrow> pystr list \<Rightarrow> Function list" where
  "constructed demangle names =
     concat (map (\<lambda>name. case Function_new demangle name of Inl e \<Rightarrow> [] | Inr f \<Rightarrow> [f])
       (filter (prefix (str ''_Z'')) names))"

text \<open>The ordinals and lower-case names the specification lists for the tags.\<close>

fun spec_ordinal :: "NamespaceEnum \<Rightarrow> int" where
  "spec_ordinal NONE = 1"
| "spec_ordinal STD = 2"
| "spec_ordinal COCOS2D = 3"
| "spec_ordinal PUGI = 4"

fun spec_lowercase_name :: "NamespaceEnum \<Rightarrow> pystr" where
  "spec_lowercase_name NONE = str ''none''"
| "spec_lowercase_name STD = str ''std''"
| "spec_lowercase_name COCOS2D = str ''cocos2d''"
| "spec_lowercase_name PUGI = str ''pugi''"

text \<open>
  The entry of the output for a record: its six fields in order, the tag as its ordinal
  and as its lower-case name.
\<close>

definition spec_entry :: "Function \<Rightarrow> json \<Rightarrow> bool" where
  "spec_entry f j =
     (case (demangled_func f, namespaceEnum f) of
        (Some dn, Some ns) \<Rightarrow>
          j = JObj
            [(str ''mangled_func'', JStr (mangled_func f)),
             (str ''demangled_func'', JStr dn),
             (str ''args'', JList (map JStr (args f))),
             (str ''namespaceEnum'', JInt (spec_ordinal ns)),
             (str ''namespaceName'', JStr (spec_lowercase_name ns)),
             (str ''arg_offsets'', JObj (map (\<lambda>(k, v). (k, JStr v)) (arg_offsets f)))]
      | _ \<Rightarrow> False)"

text \<open>A record whose three late fields are assigned, the name agreeing with the tag.\<close>

definition populated :: "Function \<Rightarrow> bool" where
  "populated f =
     (case (demangled_func f, namespaceEnum f) of
        (Some dn, Some ns) \<Rightarrow> namespaceName f = Some (py_lower (NamespaceEnum_name ns))
      | _ \<Rightarrow> False)"

text \<open>\<^verbatim>\<open>str.isascii()\<close>: every code point is below 128.\<close>

definition is_ascii :: "pystr \<Rightarrow> bool" where
  "is_ascii s = (\<forall>c\<in>set s. c < 128)"

text \<open>
  The splitter in the specification's words. The nesting depth at position \<open>n\<close> counts
  the \<^verbatim>\<open><\<close> before it, less the \<^verbatim>\<open>>\<close> before it; a separator is a comma at depth
  0; the fields are the pieces of the input between the separators; each is trimmed, and
  the piece after the last separator is dropped when it is empty.
\<close>

definition depth_at :: "pystr \<Rightarrow> nat \<Rightarrow> int" where
  "depth_at data n =
     int (length (filter (\<lambda>c. c = py_ord CHR ''<'') (take n data)))
     - int (length (filter (\<lambda>c. c = py_ord CHR ''>'') (take n data)))"

definition top_level_comma :: "pystr \<Rightarrow> nat \<Rightarrow> bool" where
  "top_level_comma data n = (data ! n = py_ord CHR '','' \<and> depth_at data n = 0)"

definition top_level_commas :: "pystr \<Rightarrow> nat list" where
  "top_level_commas data = filter (top_level_comma data) [0..<length data]"

fun fields_between :: "pystr \<Rightarrow> nat \<Rightarrow> nat list \<Rightarrow> pystr list" where
  "fields_between data start [] = [drop start data]"
| "fields_between data start (p # ps) =
     take (p - start) (drop start data) # fields_between data (Suc p) ps"

definition spec_split :: "pystr \<Rightarrow> pystr list" where
  "spec_split data =
     (let fs = fields_between data 0 (top_level_commas data)
      in map py_strip (if last fs = [] then butlast fs else fs))"

text \<open>
  Position \<open>n\<close> lies inside a balanced pair of angle brackets: a \<^verbatim>\<open><\<close> at \<open>lo\<close> before
  it and the \<^verbatim>\<open>>\<close> at \<open>hi\<close> after it that closes it (the depth stays above its value at
  \<open>lo\<close> up to \<open>hi\<close> and is back at that value behind \<open>hi\<close>).
\<close>

definition inside_balanced :: "pystr \<Rightarrow> nat \<Rightarrow> nat \<Rightarrow> nat \<Rightarrow> bool" where
  "inside_balanced data lo hi n =
     (lo < n \<and> n < hi \<and> hi < length data
      \<and> data ! lo = py_ord CHR ''<'' \<and> data ! hi = py_ord CHR ''>''
      \<and> list_all (\<lambda>k. depth_at data lo < depth_at data k) [Suc lo..<Suc hi]
      \<and> depth_at data (Suc hi) = depth_at data lo)"

text \<open>
  Argument extraction for a signature in braces as the specification words it: take the
  outer braces off, drop everything up to and including the first top-level comma, then
  extract as for any other signature (the text between the first \<^verbatim>\<open>(\<close> and the last
  \<^verbatim>\<open>)\<close>, split; nothing without a parenthesis).
\<close>

definition wrapped_in_braces :: "pystr \<Rightarrow> bool" where
  "wrapped_in_braces func =
     (2 \<le> length func \<and> hd func = py_ord CHR ''{'' \<and> last func = py_ord CHR ''}'')"

definition spec_strip_outer_braces :: "pystr \<Rightarrow> pystr" where
  "spec_strip_outer_braces func = butlast (tl func)"

definition spec_after_top_level_comma :: "pystr \<Rightarrow> pystr" where
  "spec_after_top_level_comma s =
     (case top_level_commas s of [] \<Rightarrow> s | p # ps \<Rightarrow> drop (Suc p) s)"

definition normal_extraction :: "pystr \<Rightarrow> exn + pystr list" where
  "normal_extraction func =
     (if py_in (str ''('') func then
        split_cpp_args (hd (py_rsplit1 (last (py_split1 func (str ''(''))) (str '')'')))
      else Inr [])"

definition spec_brace_arguments :: "pystr \<Rightarrow> exn + pystr list" where
  "spec_brace_arguments func =
     normal_extraction (spec_after_top_level_comma (spec_strip_outer_braces func))"

text \<open>What follows the first occurrence of a character, and what precedes its last.\<close>

definition after_first :: "nat \<Rightarrow> pystr \<Rightarrow> pystr" where
  "after_first c s = (if c \<in> set s then tl (dropWhile (\<lambda>x. x \<noteq> c) s) else s)"

definition before_last :: "nat \<Rightarrow> pystr \<Rightarrow> pystr" where
  "before_last c s = (if c \<in> set s then rev (tl (dropWhile (\<lambda>x. x \<noteq> c) (rev s))) else s)"

text \<open>
  The extraction for a signature in braces, amended: as above, except that the unmatched
  \<^verbatim>\<open>)\<close> which closed the wrapper is taken off the end of the extracted text before it
  is split. The conditions under which the code is compared with it: the first comma
  inside the braces, if there is one, is top-level; the remainder has a parenthesised
  list; and the text that is split does not itself end with \<^verbatim>\<open>)\<close>.
\<close>

definition first_comma_top_level :: "pystr \<Rightarrow> bool" where
  "first_comma_top_level s =
     (if py_ord CHR '','' \<in> set s
      then depth_at s (length (takeWhile (\<lambda>c. c \<noteq> py_ord CHR '','') s)) = 0
      else True)"

definition between_parens :: "pystr \<Rightarrow> pystr" where
  "between_parens s = before_last (py_ord CHR '')'') (after_first (py_ord CHR ''('') s)"

definition has_parenthesised_list :: "pystr \<Rightarrow> bool" where
  "has_parenthesised_list s =
     (py_ord CHR ''('' \<in> set s \<and> py_ord CHR '')'' \<in> set (after_first (py_ord CHR ''('') s))"

definition paren_balance :: "pystr \<Rightarrow> int" where
  "paren_balance s =
     int (length (filter (\<lambda>c. c = py_ord CHR ''('') s))
     - int (length (filter (\<lambda>c. c = py_ord CHR '')'') s))"

definition strip_wrapper_paren :: "pystr \<Rightarrow> pystr" where
  "strip_wrapper_paren e =
     (if e \<noteq> [] \<and> last e = py_ord CHR '')'' \<and> paren_balance e < 0 then butlast e else e)"

definition plain_end :: "pystr \<Rightarrow> bool" where
  "plain_end a = (a = [] \<or> last a \<noteq> py_ord CHR '')'')"

definition amended_brace_arguments :: "pystr \<Rightarrow> exn + pystr list" where
  "amended_brace_arguments func =
     (let rem = spec_after_top_level_comma (spec_strip_outer_braces func)
      in if py_ord CHR ''('' \<in> set rem
         then split_cpp_args (strip_wrapper_paren (between_parens rem))
         else Inr [])"

section \<open>Properties\<close>

declare format_i.simps [simp del] hex_digits.simps [simp del]

subsection \<open>Strings and numbers\<close>

lemma startswith_prefix: "py_startswith s p = prefix p s"
  unfolding py_startswith_def
  by (metis append_take_drop_id prefix_def append_eq_conv_conj)

lemma digit_char_inj: "a < 16 \<Longrightarrow> b < 16 \<Longrightarrow> digit_char a = digit_char b \<Longrightarrow> a = b"
  by (simp add: digit_char_def split: if_splits)

lemma hex_digits_nonempty: "hex_digits n \<noteq> []"
  by (subst hex_digits.simps) simp

lemma hex_digits_inj: "hex_digits m = hex_digits n \<Longrightarrow> m = n"
proof (induction m arbitrary: n rule: hex_digits.induct)
  case (1 m)
  show ?case
  proof (cases "m < 16")
    case small: True
    show ?thesis
    proof (cases "n < 16")
      case True
      with small "1.prems" show ?thesis
        by (simp add: hex_digits.simps [of m] hex_digits.simps [of n] digit_char_inj)
    next
      case False
      with small "1.prems" hex_digits_nonempty [of "n div 16"] show ?thesis
        by (simp add: hex_digits.simps [of m] hex_digits.simps [of n])
    qed
  next
    case big: False
    show ?thesis
    proof (cases "n < 16")
      case True
      with big "1.prems" hex_digits_nonempty [of "m div 16"] show ?thesis
        by (simp add: hex_digits.simps [of m] hex_digits.simps [of n])
    next
      case False
      with big "1.prems" have eq: "hex_digits (m div 16) = hex_digits (n div 16)"
        and d: "digit_char (m mod 16) = digit_char (n mod 16)"
        by (simp_all add: hex_digits.simps [of m] hex_digits.simps [of n])
      from "1.IH" [OF big eq] have "m div 16 = n div 16" .
      moreover from d have "m mod 16 = n mod 16"
        by (rule digit_char_inj [rotated 2]) simp_all
      ultimately show ?thesis
        by (metis div_mult_mod_eq)
    qed
  qed
qed

lemma format_i_small: "k < 10 \<Longrightarrow> format_i k = [48 + k]"
  by (simp add: format_i.simps [of k] digit_char_def)

subsection \<open>The slot counter\<close>

lemma spec_slot_inj: "spec_slot j = spec_slot k \<Longrightarrow> j = k"
  by (auto simp: spec_slot_def py_hex_def str_def py_ord_def format_i_small
      split: if_splits dest!: hex_digits_inj)

lemma counter_at_0: "OffsetCounter_init = counter_at 0"
  by (simp add: OffsetCounter_init_def counter_at_def)

lemma next_counter_at: "OffsetCounter_next (counter_at k) = (spec_slot k, counter_at (Suc k))"
  by (auto simp: OffsetCounter_next_def counter_at_def spec_slot_def min_def mult.commute)

lemma issued_counter_at: "issued n (counter_at k) = map spec_slot [k..<k + n]"
proof (induction n arbitrary: k)
  case 0
  show ?case by simp
next
  case (Suc n)
  have "[k..<k + Suc n] = k # [Suc k..<Suc k + n]"
    by (simp add: upt_conv_Cons)
  with Suc show ?case
    by (simp add: next_counter_at del: upt_Suc)
qed

lemma spec_slot_first_six:
  "map spec_slot [0..<6] =
     [str ''r0'', str ''r1'', str ''r2'', str ''r3'', str ''STACK[0x0]'', str ''STACK[0x4]'']"
  by (simp add: spec_slot_def upt_conv_Cons format_i_small py_hex_def hex_digits.simps
      str_def py_ord_def digit_char_def)

subsection \<open>Dictionaries built from fresh keys\<close>

lemma setitem_fresh: "k \<notin> fst ` set d \<Longrightarrow> setitem d k v = d @ [(k, v)]"
  by (induction d) auto

lemma dict_update_fresh:
  "distinct (map fst other) \<Longrightarrow> fst ` set d \<inter> fst ` set other = {} \<Longrightarrow>
   dict_update d other = d @ other"
proof (induction other arbitrary: d)
  case Nil
  show ?case by simp
next
  case (Cons p other)
  obtain k v where p: "p = (k, v)" by (cases p)
  from Cons.prems p have "setitem d k v = d @ [(k, v)]"
    by (auto intro: setitem_fresh)
  moreover from Cons.prems p have "fst ` set (d @ [(k, v)]) \<inter> fst ` set other = {}"
    by auto
  ultimately show ?case
    using Cons.IH [of "d @ [(k, v)]"] Cons.prems p by simp
qed

lemma comprehension_slots:
  "(\<And>j. k \<le> j \<Longrightarrow> spec_slot j \<notin> fst ` set d) \<Longrightarrow>
   offsets_comprehension (counter_at k) as d =
     d @ zip (map spec_slot [k..<k + length as]) (map py_strip as)"
proof (induction as arbitrary: k d)
  case Nil
  show ?case by simp
next
  case (Cons a as)
  let ?d = "d @ [(spec_slot k, py_strip a)]"
  have fresh: "spec_slot j \<notin> fst ` set ?d" if "Suc k \<le> j" for j
    using that Cons.prems [of j] spec_slot_inj [of j k] by auto
  have "[k..<k + length (a # as)] = k # [Suc k..<Suc k + length as]"
    by (simp add: upt_conv_Cons del: upt_Suc)
  moreover have "setitem d (spec_slot k) (py_strip a) = ?d"
    using Cons.prems [of k] by (simp add: setitem_fresh)
  ultimately show ?case
    using Cons.IH [of "Suc k" ?d, OF fresh] by (simp add: next_counter_at del: upt_Suc)
qed

lemma distinct_map_upt: "(\<And>a b. f a = f b \<Longrightarrow> a = b) \<Longrightarrow> distinct (map f [m..<n])"
  by (simp add: distinct_map inj_on_def)

lemma make_possible_arg_offsets_eq:
  "make_possible_arg_offsets self =
     zip (map spec_slot [0..<Suc (length (args self))]) (str ''this'' # map py_strip (args self))"
proof -
  define ks where "ks = map spec_slot [Suc 0..<Suc 0 + length (args self)]"
  define vs where "vs = map py_strip (args self)"
  have len: "length ks = length vs"
    by (simp add: ks_def vs_def del: upt_Suc)
  have c: "offsets_comprehension (counter_at (Suc 0)) (args self) [] = zip ks vs"
    using comprehension_slots [of "Suc 0" "[]" "args self"] by (simp add: ks_def vs_def)
  have d: "distinct ks"
    unfolding ks_def by (rule distinct_map_upt) (rule spec_slot_inj)
  have notin: "spec_slot 0 \<notin> set ks"
    unfolding ks_def by (auto dest!: spec_slot_inj)
  have "dict_update [(spec_slot 0, str ''this'')] (zip ks vs)
        = [(spec_slot 0, str ''this'')] @ zip ks vs"
  proof (rule dict_update_fresh)
    show "distinct (map fst (zip ks vs))"
      using d len by simp
    show "fst ` set [(spec_slot 0, str ''this'')] \<inter> fst ` set (zip ks vs) = {}"
      using notin by (auto dest!: set_zip_leftD)
  qed
  moreover have "[0..<Suc (length (args self))] = 0 # [Suc 0..<Suc 0 + length (args self)]"
    by (simp add: upt_conv_Cons del: upt_Suc)
  ultimately show ?thesis
    by (simp add: make_possible_arg_offsets_def bound_method_truth_def counter_at_0
        next_counter_at c ks_def vs_def del: upt_Suc)
qed

lemma spec_slot_0: "spec_slot 0 = str ''r0''"
  by (simp add: spec_slot_def format_i_small str_def py_ord_def)

subsection \<open>The namespace classifier\<close>

text \<open>
  C6. Whatever the demangled signature, the classifier answers COCOS2D exactly when the
  signature starts with the literal \<^verbatim>\<open>cococs2d::\<close> (spelt as in the source), STD
  exactly when it starts with \<^verbatim>\<open>std::\<close>, PUGI exactly when it starts with
  \<^verbatim>\<open>pugi::\<close>, and NONE exactly when it starts with none of the three. No string
  starts with two of them, so the first match is the only match.
\<close>

theorem find_namespace_first_prefix_match:
  "(find_namespace func = COCOS2D \<longleftrightarrow> prefix (str ''cococs2d::'') func) \<and>
   (find_namespace func = STD \<longleftrightarrow> prefix (str ''std::'') func) \<and>
   (find_namespace func = PUGI \<longleftrightarrow> prefix (str ''pugi::'') func) \<and>
   (find_namespace func = NONE \<longleftrightarrow>
      \<not> prefix (str ''cococs2d::'') func \<and> \<not> prefix (str ''std::'') func
      \<and> \<not> prefix (str ''pugi::'') func)"
  by (cases func) (auto simp: find_namespace_def startswith_prefix str_def py_ord_def)

subsection \<open>Slot order\<close>

text \<open>
  C2. A fresh counter asked \<open>n\<close> times returns the slots of the specification in order:
  r0 to r3 first, then STACK[0x0], STACK[0x4], and so on in steps of 4. The slot map of
  any record has the first \<open>length args + 1\<close> of these slots as its keys, in that order,
  bound to \<^verbatim>\<open>this\<close> and then to the trimmed arguments; with no argument it is exactly
  \<^verbatim>\<open>{r0: this}\<close>.
\<close>

theorem slots_in_fixed_order:
  "issued n OffsetCounter_init = map spec_slot [0..<n]
   \<and> map spec_slot [0..<6] =
       [str ''r0'', str ''r1'', str ''r2'', str ''r3'', str ''STACK[0x0]'', str ''STACK[0x4]'']
   \<and> map fst (make_possible_arg_offsets self) = map spec_slot [0..<Suc (length (args self))]
   \<and> map snd (make_possible_arg_offsets self) = str ''this'' # map py_strip (args self)
   \<and> make_possible_arg_offsets (self\<lparr>args := []\<rparr>) = [(str ''r0'', str ''this'')]"
proof -
  have "issued n OffsetCounter_init = map spec_slot [0..<n]"
    using issued_counter_at [of n 0] by (simp add: counter_at_0)
  moreover have "map fst (make_possible_arg_offsets self) =
      map spec_slot [0..<Suc (length (args self))]"
    by (simp add: make_possible_arg_offsets_eq del: upt_Suc)
  moreover have "map snd (make_possible_arg_offsets self) =
      str ''this'' # map py_strip (args self)"
    by (simp add: make_possible_arg_offsets_eq del: upt_Suc)
  moreover have "make_possible_arg_offsets (self\<lparr>args := []\<rparr>) = [(str ''r0'', str ''this'')]"
    by (simp add: make_possible_arg_offsets_eq spec_slot_0)
  ultimately show ?thesis
    using spec_slot_first_six by simp
qed

subsection \<open>Construction of a record\<close>

lemma Function_new_rejected:
  "demangle m = Inl e \<Longrightarrow> isinstance_ValueError e \<Longrightarrow>
   Function_new demangle m = Inr (failure_record m)"
  by (simp add: Function_new_def attrs_post_init_def try_body_def Function_fields_def
      failure_record_def)

lemma demangle_arguments_int: "demangle_arguments (str ''foo(int)'') = Inr [str ''int'']"
  by (simp add: demangle_arguments_def str_def py_ord_def py_split1_def py_rsplit1_def split_cpp_args_def
      bytearray_append_def py_strip_def py_isspace_def push_def)

lemma demangle_arguments_void: "demangle_arguments (str ''bar()'') = Inr []"
  by (simp add: demangle_arguments_def str_def py_ord_def py_split1_def py_rsplit1_def split_cpp_args_def)

lemma demangle_arguments_euro:
  "demangle_arguments (str ''f('' @ 8364 # str '')'') = Inl ValueError"
  by (simp add: demangle_arguments_def str_def py_ord_def py_split1_def py_rsplit1_def split_cpp_args_def
      bytearray_append_def)

lemma Function_new_foo:
  "Function_new sample_demangle (str ''_Z3fooi'') =
     Inr \<lparr>mangled_func = str ''_Z3fooi'', demangled_func = Some (str ''foo(int)''),
          args = [str ''int''], namespaceEnum = Some NONE, namespaceName = Some (str ''none''),
          arg_offsets = [(str ''r0'', str ''this''), (str ''r1'', str ''int'')]\<rparr>"
proof -
  have d: "sample_demangle (str ''_Z3fooi'') = Inr (str ''foo(int)'')"
    by (simp add: sample_demangle_def)
  have n: "find_namespace (str ''foo(int)'') = NONE"
    by (simp add: find_namespace_def py_startswith_def str_def py_ord_def)
  have l: "py_lower (str ''NONE'') = str ''none''"
    by (simp add: py_lower_def str_def py_ord_def)
  have s: "py_strip (str ''int'') = str ''int''"
    by (simp add: py_strip_def py_isspace_def str_def py_ord_def)
  have k: "spec_slot (Suc 0) = str ''r1''"
    by (simp add: spec_slot_def format_i_small str_def py_ord_def)
  show ?thesis
    by (simp add: Function_new_def attrs_post_init_def try_body_def Function_fields_def d
        demangle_arguments_int n l s k spec_slot_0 make_possible_arg_offsets_eq upt_conv_Cons)
qed

text \<open>
  C4. When the demangler rejects a mangled name with a ValueError, construction returns a
  record (it does not raise): the sentinel \<^verbatim>\<open>FAILED\<close>, no arguments, the tag NONE and an
  empty slot map. \<open>add_func\<close> appends that record to the collection, and the loop over
  the symbols goes on with the names that follow.
\<close>

theorem demangle_failure_recovers:
  assumes "demangle m = Inl e" and "isinstance_ValueError e"
  shows "Function_new demangle m = Inr (failure_record m)
    \<and> failure_record m =
        \<lparr>mangled_func = m, demangled_func = Some (str ''FAILED''), args = [],
         namespaceEnum = Some NONE, namespaceName = Some (str ''none''), arg_offsets = []\<rparr>
    \<and> add_func demangle elf m = Inr (elf\<lparr>functions' := functions' elf @ [failure_record m]\<rparr>)
    \<and> cli_symbols demangle elf (m # names) =
        cli_symbols demangle
          (if py_startswith m (str ''_Z'')
           then elf\<lparr>functions' := functions' elf @ [failure_record m]\<rparr> else elf) names"
proof -
  have "add_func demangle elf m = Inr (elf\<lparr>functions' := functions' elf @ [failure_record m]\<rparr>)"
    using assms
    by (simp add: Function_new_rejected add_func_def failure_record_def str_def py_ord_def
        py_startswith_def)
  then show ?thesis
    using assms by (simp add: Function_new_rejected) (simp add: failure_record_def)
qed

theorem demangle_failure_recovers_witness:
  "sample_demangle (str ''_Zbad'') = Inl ValueError
   \<and> isinstance_ValueError ValueError
   \<and> Function_new sample_demangle (str ''_Zbad'') = Inr (failure_record (str ''_Zbad''))
   \<and> add_func sample_demangle \<lparr>functions' = [], version = str ''2.2074''\<rparr> (str ''_Zbad'')
      = Inr \<lparr>functions' = [failure_record (str ''_Zbad'')], version = str ''2.2074''\<rparr>"
proof -
  have h: "sample_demangle (str ''_Zbad'') = Inl ValueError"
    by (simp add: sample_demangle_def str_def py_ord_def)
  show ?thesis
    using h demangle_failure_recovers [of sample_demangle "str ''_Zbad''" ValueError
        "\<lparr>functions' = [], version = str ''2.2074''\<rparr>"]
    by simp
qed

text \<open>
  C10. Suppose the demangler has accepted the name and a ValueError then stops the body
  of the \<^verbatim>\<open>try\<close>. At that point the object already carries the demangled signature,
  yet the record that construction returns is the failure record, field for field the
  one a rejected name gives: nothing derived from the demangling is left in it.
\<close>

theorem value_error_after_demangling:
  assumes "demangle m = Inr d"
    and "try_body demangle (Function_fields m) = (self', Some e)"
    and "isinstance_ValueError e"
  shows "demangled_func self' = Some d
    \<and> Function_new demangle m = Inr (failure_record m)
    \<and> Function_new demangle m = Function_new (\<lambda>_. Inl ValueError) m"
proof -
  from assms(1,2) have self': "self' = (Function_fields m)\<lparr>demangled_func := Some d\<rparr>"
    by (auto simp: try_body_def Function_fields_def Let_def split: sum.splits)
  with assms(2,3) have "Function_new demangle m = Inr (failure_record m)"
    by (simp add: Function_new_def attrs_post_init_def Function_fields_def failure_record_def)
  with self' show ?thesis
    by (simp add: Function_new_rejected)
qed

theorem value_error_after_demangling_witness:
  "try_body (\<lambda>_. Inr (str ''f('' @ 8364 # str '')'')) (Function_fields (str ''_Z1f''))
     = ((Function_fields (str ''_Z1f''))\<lparr>demangled_func := Some (str ''f('' @ 8364 # str '')'')\<rparr>,
        Some ValueError)
   \<and> isinstance_ValueError ValueError
   \<and> Function_new (\<lambda>_. Inr (str ''f('' @ 8364 # str '')'')) (str ''_Z1f'')
     = Inr (failure_record (str ''_Z1f''))"
proof -
  have t: "try_body (\<lambda>_. Inr (str ''f('' @ 8364 # str '')'')) (Function_fields (str ''_Z1f''))
     = ((Function_fields (str ''_Z1f''))\<lparr>demangled_func := Some (str ''f('' @ 8364 # str '')'')\<rparr>,
        Some ValueError)"
    by (simp add: try_body_def demangle_arguments_euro)
  show ?thesis
    using t value_error_after_demangling [of "\<lambda>_. Inr (str ''f('' @ 8364 # str '')'')"
        "str ''_Z1f''" "str ''f('' @ 8364 # str '')''" _ ValueError, OF _ t]
    by simp
qed

text \<open>
  C9. Whenever the body of the \<^verbatim>\<open>try\<close> runs to its end, the record it leaves is the
  one construction returns, and its slot map starts with \<^verbatim>\<open>r0: this\<close> and has one
  entry more than there are arguments. The verdict of the this-call heuristic plays no
  part: the slot map is never the one the branch without a receiver would build.
\<close>

theorem receiver_slot_unconditional:
  assumes "try_body demangle (Function_fields m) = (f, None)"
  shows "Function_new demangle m = Inr f
    \<and> hd (arg_offsets f) = (str ''r0'', str ''this'')
    \<and> length (arg_offsets f) = length (args f) + 1
    \<and> arg_offsets f \<noteq> offsets_comprehension OffsetCounter_init (args f) []"
proof -
  from assms obtain d a where d: "demangle m = Inr d" and a: "demangle_arguments d = Inr a"
    by (auto simp: try_body_def Function_fields_def Let_def split: sum.splits)
  from assms d a have args: "args f = a"
    and "arg_offsets f =
      zip (map spec_slot [0..<Suc (length a)]) (str ''this'' # map py_strip a)"
    by (auto simp: try_body_def Function_fields_def Let_def make_possible_arg_offsets_eq
        simp del: upt_Suc)
  then have offs: "arg_offsets f = make_possible_arg_offsets f"
    by (simp add: make_possible_arg_offsets_eq del: upt_Suc)
  have new: "Function_new demangle m = Inr f"
    using assms by (simp add: Function_new_def attrs_post_init_def)
  have "[0..<Suc (length (args f))] = 0 # [Suc 0..<Suc (length (args f))]"
    by (simp add: upt_conv_Cons del: upt_Suc)
  then have hd: "hd (arg_offsets f) = (str ''r0'', str ''this'')"
    by (simp add: offs make_possible_arg_offsets_eq spec_slot_0 del: upt_Suc)
  have len: "length (arg_offsets f) = length (args f) + 1"
    by (simp add: offs make_possible_arg_offsets_eq del: upt_Suc)
  have "length (offsets_comprehension OffsetCounter_init (args f) []) = length (args f)"
    using comprehension_slots [of 0 "[]" "args f"] by (simp add: counter_at_0 del: upt_Suc)
  with len have "arg_offsets f \<noteq> offsets_comprehension OffsetCounter_init (args f) []"
    by auto
  with new hd len show ?thesis by simp
qed

theorem receiver_slot_unconditional_witness:
  "try_body sample_demangle (Function_fields (str ''_Z3barv''))
     = (\<lparr>mangled_func = str ''_Z3barv'', demangled_func = Some (str ''bar()''), args = [],
         namespaceEnum = Some NONE, namespaceName = Some (str ''none''),
         arg_offsets = [(str ''r0'', str ''this'')]\<rparr>, None)
   \<and> is_this_call
        \<lparr>mangled_func = str ''_Z3barv'', demangled_func = Some (str ''bar()''), args = [],
         namespaceEnum = Some NONE, namespaceName = Some (str ''none''),
         arg_offsets = [(str ''r0'', str ''this'')]\<rparr> (str ''bar()'') = Inr False
   \<and> Function_new sample_demangle (str ''_Z3barv'')
     = Inr \<lparr>mangled_func = str ''_Z3barv'', demangled_func = Some (str ''bar()''), args = [],
         namespaceEnum = Some NONE, namespaceName = Some (str ''none''),
         arg_offsets = [(str ''r0'', str ''this'')]\<rparr>"
proof -
  have d: "sample_demangle (str ''_Z3barv'') = Inr (str ''bar()'')"
    by (simp add: sample_demangle_def str_def py_ord_def)
  have n: "find_namespace (str ''bar()'') = NONE"
    by (simp add: find_namespace_def py_startswith_def str_def py_ord_def)
  have l: "py_lower (str ''NONE'') = str ''none''"
    by (simp add: py_lower_def str_def py_ord_def)
  have t: "try_body sample_demangle (Function_fields (str ''_Z3barv''))
     = (\<lparr>mangled_func = str ''_Z3barv'', demangled_func = Some (str ''bar()''), args = [],
         namespaceEnum = Some NONE, namespaceName = Some (str ''none''),
         arg_offsets = [(str ''r0'', str ''this'')]\<rparr>, None)"
    by (simp add: try_body_def Function_fields_def d demangle_arguments_void n l
        make_possible_arg_offsets_eq spec_slot_0)
  have h: "is_this_call
        \<lparr>mangled_func = str ''_Z3barv'', demangled_func = Some (str ''bar()''), args = [],
         namespaceEnum = Some NONE, namespaceName = Some (str ''none''),
         arg_offsets = [(str ''r0'', str ''this'')]\<rparr> (str ''bar()'') = Inr False"
    by (simp add: is_this_call_def py_split_def str_def py_ord_def)
  show ?thesis
    using t h receiver_slot_unconditional [OF t] by simp
qed

text \<open>
  C1, evaluated on the symbol \<^verbatim>\<open>_Z3fooi\<close>, which demangles to \<^verbatim>\<open>foo(int)\<close>: the
  this-call heuristic answers no (the tag is NONE and the signature has no \<^verbatim>\<open>::\<close>),
  and the slot map nevertheless binds r0 to \<^verbatim>\<open>this\<close> and has two entries for one
  argument.
\<close>

theorem receiver_slot_despite_heuristic:
  "\<exists>f. Function_new sample_demangle (str ''_Z3fooi'') = Inr f
     \<and> is_this_call f (str ''foo(int)'') = Inr False
     \<and> args f = [str ''int'']
     \<and> arg_offsets f = [(str ''r0'', str ''this''), (str ''r1'', str ''int'')]"
  by (simp add: Function_new_foo is_this_call_def py_split_def) (simp add: str_def py_ord_def)

theorem receiver_slot_despite_heuristic_witness:
  "\<exists>f. Function_new sample_demangle (str ''_Z3fooi'') = Inr f
     \<and> length (arg_offsets f) = 2 \<and> length (args f) = 1"
  using receiver_slot_despite_heuristic by auto

subsection \<open>The collection and its output\<close>

lemma Function_new_populated: "Function_new demangle m = Inr f \<Longrightarrow> populated f"
  by (auto simp: Function_new_def attrs_post_init_def try_body_def Function_fields_def Let_def
      populated_def py_lower_def str_def py_ord_def split: sum.splits if_splits)

lemma list_ex_prefix:
  "list_ex (\<lambda>a. py_startswith a p) as = (\<exists>a\<in>set as. prefix p a)"
  by (simp add: list_ex_iff startswith_prefix)

lemma add_func_policy:
  assumes "Function_new demangle m = Inr f"
  shows "add_func demangle elf m =
     Inr (if spec_rejects f then elf else elf\<lparr>functions' := functions' elf @ [f]\<rparr>)"
proof -
  from Function_new_populated [OF assms] obtain dn where "demangled_func f = Some dn"
    by (auto simp: populated_def split: option.splits)
  with assms show ?thesis
    by (simp add: add_func_def spec_rejects_def list_ex_iff startswith_prefix)
qed

lemma cli_symbols_collects:
  "cli_symbols demangle elf names = Inr elf' \<Longrightarrow>
   functions' elf' = functions' elf @ filter (\<lambda>f. \<not> spec_rejects f) (constructed demangle names)
   \<and> version elf' = version elf"
proof (induction names arbitrary: elf)
  case Nil
  then show ?case by (simp add: constructed_def)
next
  case (Cons name names)
  show ?case
  proof (cases "prefix (str ''_Z'') name")
    case False
    with Cons show ?thesis
      by (simp add: startswith_prefix constructed_def)
  next
    case True
    with Cons.prems obtain f where f: "Function_new demangle name = Inr f"
      by (auto simp: startswith_prefix add_func_def split: sum.splits)
    let ?elf = "if spec_rejects f then elf else elf\<lparr>functions' := functions' elf @ [f]\<rparr>"
    from Cons.prems True f have "cli_symbols demangle ?elf names = Inr elf'"
      by (simp add: startswith_prefix add_func_policy)
    from Cons.IH [OF this] True f show ?thesis
      by (simp add: constructed_def)
  qed
qed

lemma push_Inl: "push c r = Inl e \<longleftrightarrow> r = Inl e"
  by (cases r) (simp_all add: push_def)

lemma decode_error: "decode b = Inl e \<Longrightarrow> e = UnicodeDecodeError"
proof (induction b rule: decode.induct)
  case 1
  then show ?case by simp
next
  case (2 b0 bs)
  from "2.prems" show ?case
    by (simp add: push_Inl split: if_splits list.splits) (use "2.IH" in auto)
qed

lemma split_loop_error: "split_loop ds as b fb = Inl e \<Longrightarrow> isinstance_ValueError e"
  by (induction ds arbitrary: as b fb)
    (auto simp: bytearray_append_def split: if_splits sum.splits dest: decode_error)

lemma split_cpp_args_error: "split_cpp_args data = Inl e \<Longrightarrow> isinstance_ValueError e"
  by (auto simp: split_cpp_args_def split: sum.splits if_splits prod.splits
      dest: decode_error split_loop_error)

lemma demangle_arguments_error: "demangle_arguments d = Inl e \<Longrightarrow> isinstance_ValueError e"
  by (auto simp: demangle_arguments_def Let_def split: if_splits dest: split_cpp_args_error)

lemma Function_new_total:
  assumes "\<And>e. demangle m = Inl e \<Longrightarrow> isinstance_ValueError e"
  shows "\<exists>f. Function_new demangle m = Inr f"
proof (cases "demangle m")
  case (Inl e)
  with assms show ?thesis
    by (simp add: Function_new_def attrs_post_init_def try_body_def Function_fields_def)
next
  case (Inr d)
  then show ?thesis
    by (cases "demangle_arguments d")
      (auto simp: Function_new_def attrs_post_init_def try_body_def Function_fields_def Let_def
        dest: demangle_arguments_error)
qed

lemma cli_symbols_total:
  assumes "\<And>m e. demangle m = Inl e \<Longrightarrow> isinstance_ValueError e"
  shows "\<exists>elf'. cli_symbols demangle elf names = Inr elf'"
proof (induction names arbitrary: elf)
  case Nil
  show ?case by simp
next
  case (Cons name names)
  have "\<exists>f. Function_new demangle name = Inr f"
    using assms [of name] by (rule Function_new_total)
  then obtain f where "Function_new demangle name = Inr f" ..
  with Cons show ?case
    by (simp add: add_func_policy)
qed

lemma constructed_populated: "f \<in> set (constructed demangle names) \<Longrightarrow> populated f"
  by (auto simp: constructed_def dest: Function_new_populated [OF sym] split: sum.splits)

lemma NamespaceEnum_value_ordinal: "NamespaceEnum_value ns = spec_ordinal ns"
  by (cases ns) (simp_all add: NamespaceEnum_value_def NamespaceEnum_members_def)

lemma lower_name: "py_lower (NamespaceEnum_name ns) = spec_lowercase_name ns"
  by (cases ns) (simp_all add: py_lower_def str_def py_ord_def)

lemma asdict_populated: "populated f \<Longrightarrow> \<exists>j. asdict_Function f = Inr j \<and> spec_entry f j"
  by (auto simp: populated_def asdict_Function_def spec_entry_def NamespaceEnum_value_ordinal
      lower_name split: option.splits)

lemma asdict_all_populated:
  "(\<And>f. f \<in> set fs \<Longrightarrow> populated f) \<Longrightarrow>
   \<exists>js. asdict_all fs = Inr js \<and> list_all2 spec_entry fs js"
proof (induction fs)
  case Nil
  show ?case by simp
next
  case (Cons f fs)
  from Cons.prems obtain j where "asdict_Function f = Inr j" "spec_entry f j"
    using asdict_populated [of f] by auto
  moreover from Cons obtain js where "asdict_all fs = Inr js" "list_all2 spec_entry fs js"
    by auto
  ultimately show ?case by simp
qed

text \<open>
  C5. \<open>add_func\<close> leaves the collection as it is exactly when the policy of the
  specification rejects the record that construction returned, and appends the record at
  the end otherwise. Hence after the loop over the symbols the collection is what it was,
  followed by the records that passed the policy, in the order of their names.
\<close>

theorem exclusion_policy:
  "(Function_new demangle m = Inr f \<longrightarrow>
      add_func demangle elf m =
        Inr (if spec_rejects f then elf else elf\<lparr>functions' := functions' elf @ [f]\<rparr>))
   \<and> (cli_symbols demangle elf names = Inr elf' \<longrightarrow>
      functions' elf' =
        functions' elf @ filter (\<lambda>f. \<not> spec_rejects f) (constructed demangle names))"
  using add_func_policy [of demangle m f elf] cli_symbols_collects [of demangle elf names elf']
  by blast

lemma demangle_arguments_none: "demangle_arguments (str ''typeinfo name for Foo'') = Inr []"
  by (simp add: demangle_arguments_def str_def py_ord_def)

lemma Function_new_typeinfo:
  "Function_new sample_demangle (str ''_ZTS3Foo'') =
     Inr \<lparr>mangled_func = str ''_ZTS3Foo'', demangled_func = Some (str ''typeinfo name for Foo''),
          args = [], namespaceEnum = Some NONE, namespaceName = Some (str ''none''),
          arg_offsets = [(str ''r0'', str ''this'')]\<rparr>"
proof -
  have d: "sample_demangle (str ''_ZTS3Foo'') = Inr (str ''typeinfo name for Foo'')"
    by (simp add: sample_demangle_def str_def py_ord_def)
  have n: "find_namespace (str ''typeinfo name for Foo'') = NONE"
    by (simp add: find_namespace_def py_startswith_def str_def py_ord_def)
  have l: "py_lower (str ''NONE'') = str ''none''"
    by (simp add: py_lower_def str_def py_ord_def)
  show ?thesis
    by (simp add: Function_new_def attrs_post_init_def try_body_def Function_fields_def d
        demangle_arguments_none n l spec_slot_0 make_possible_arg_offsets_eq)
qed

lemma Function_new_bad:
  "Function_new sample_demangle (str ''_Zbad'') = Inr (failure_record (str ''_Zbad''))"
  by (rule Function_new_rejected [of _ _ ValueError])
    (simp_all add: sample_demangle_def str_def py_ord_def)

lemma demangle_arguments_vtable: "demangle_arguments (str ''{vtable(Foo)}'') = Inr [str ''Foo'']"
  by (simp add: demangle_arguments_def str_def py_ord_def py_split1_def py_rsplit1_def
      py_lstrip_def py_rstrip_def split_cpp_args_def bytearray_append_def push_def
      py_strip_def py_isspace_def)

lemma demangle_arguments_eptr:
  "demangle_arguments (str ''f(std::__exception_ptr::exception_ptr)'')
     = Inr [str ''std::__exception_ptr::exception_ptr'']"
  by (simp add: demangle_arguments_def str_def py_ord_def py_split1_def py_rsplit1_def
      split_cpp_args_def bytearray_append_def push_def py_strip_def py_isspace_def)

lemma Function_new_vtable:
  "Function_new sample_demangle (str ''_ZTV3Foo'') =
     Inr \<lparr>mangled_func = str ''_ZTV3Foo'', demangled_func = Some (str ''{vtable(Foo)}''),
          args = [str ''Foo''], namespaceEnum = Some NONE, namespaceName = Some (str ''none''),
          arg_offsets = [(str ''r0'', str ''this''), (str ''r1'', str ''Foo'')]\<rparr>"
proof -
  have d: "sample_demangle (str ''_ZTV3Foo'') = Inr (str ''{vtable(Foo)}'')"
    by (simp add: sample_demangle_def str_def py_ord_def)
  have n: "find_namespace (str ''{vtable(Foo)}'') = NONE"
    by (simp add: find_namespace_def py_startswith_def str_def py_ord_def)
  have l: "py_lower (str ''NONE'') = str ''none''"
    by (simp add: py_lower_def str_def py_ord_def)
  have s: "py_strip (str ''Foo'') = str ''Foo''"
    by (simp add: py_strip_def py_isspace_def str_def py_ord_def)
  have k: "spec_slot (Suc 0) = str ''r1''"
    by (simp add: spec_slot_def format_i_small str_def py_ord_def)
  show ?thesis
    by (simp add: Function_new_def attrs_post_init_def try_body_def Function_fields_def d
        demangle_arguments_vtable n l s k spec_slot_0 make_possible_arg_offsets_eq upt_conv_Cons)
qed

lemma Function_new_eptr:
  "Function_new sample_demangle (str ''_Z1fNSt15__exception_ptr13exception_ptrE'') =
     Inr \<lparr>mangled_func = str ''_Z1fNSt15__exception_ptr13exception_ptrE'',
          demangled_func = Some (str ''f(std::__exception_ptr::exception_ptr)''),
          args = [str ''std::__exception_ptr::exception_ptr''], namespaceEnum = Some NONE,
          namespaceName = Some (str ''none''),
          arg_offsets = [(str ''r0'', str ''this''),
                         (str ''r1'', str ''std::__exception_ptr::exception_ptr'')]\<rparr>"
proof -
  have d: "sample_demangle (str ''_Z1fNSt15__exception_ptr13exception_ptrE'') =
      Inr (str ''f(std::__exception_ptr::exception_ptr)'')"
    by (simp add: sample_demangle_def str_def py_ord_def)
  have n: "find_namespace (str ''f(std::__exception_ptr::exception_ptr)'') = NONE"
    by (simp add: find_namespace_def py_startswith_def str_def py_ord_def)
  have l: "py_lower (str ''NONE'') = str ''none''"
    by (simp add: py_lower_def str_def py_ord_def)
  have s: "py_strip (str ''std::__exception_ptr::exception_ptr'') =
      str ''std::__exception_ptr::exception_ptr''"
    by (simp add: py_strip_def py_isspace_def str_def py_ord_def)
  have k: "spec_slot (Suc 0) = str ''r1''"
    by (simp add: spec_slot_def format_i_small str_def py_ord_def)
  show ?thesis
    by (simp add: Function_new_def attrs_post_init_def try_body_def Function_fields_def d
        demangle_arguments_eptr n l s k spec_slot_0 make_possible_arg_offsets_eq upt_conv_Cons)
qed

theorem exclusion_policy_witness:
  "Function_new sample_demangle (str ''_ZTS3Foo'') =
     Inr \<lparr>mangled_func = str ''_ZTS3Foo'', demangled_func = Some (str ''typeinfo name for Foo''),
          args = [], namespaceEnum = Some NONE, namespaceName = Some (str ''none''),
          arg_offsets = [(str ''r0'', str ''this'')]\<rparr>
   \<and> add_func sample_demangle \<lparr>functions' = [], version = str ''2.2074''\<rparr> (str ''_ZTS3Foo'')
     = Inr \<lparr>functions' = [], version = str ''2.2074''\<rparr>
   \<and> cli_symbols sample_demangle \<lparr>functions' = [], version = str ''2.2074''\<rparr>
        [str ''_Z3fooi'', str ''_ZTS3Foo'', str ''main'', str ''_ZTV3Foo'',
         str ''_Z1fNSt15__exception_ptr13exception_ptrE'', str ''_Zbad'']
     = Inr \<lparr>functions' =
              [\<lparr>mangled_func = str ''_Z3fooi'', demangled_func = Some (str ''foo(int)''),
                args = [str ''int''], namespaceEnum = Some NONE,
                namespaceName = Some (str ''none''),
                arg_offsets = [(str ''r0'', str ''this''), (str ''r1'', str ''int'')]\<rparr>,
               failure_record (str ''_Zbad'')],
            version = str ''2.2074''\<rparr>
   \<and> filter (\<lambda>f. \<not> spec_rejects f)
        (constructed sample_demangle
          [str ''_Z3fooi'', str ''_ZTS3Foo'', str ''main'', str ''_ZTV3Foo'',
           str ''_Z1fNSt15__exception_ptr13exception_ptrE'', str ''_Zbad''])
     = [\<lparr>mangled_func = str ''_Z3fooi'', demangled_func = Some (str ''foo(int)''),
                args = [str ''int''], namespaceEnum = Some NONE,
                namespaceName = Some (str ''none''),
                arg_offsets = [(str ''r0'', str ''this''), (str ''r1'', str ''int'')]\<rparr>,
               failure_record (str ''_Zbad'')]"
proof -
  let ?elf = "\<lparr>functions' = [], version = str ''2.2074''\<rparr>"
  let ?foo = "\<lparr>mangled_func = str ''_Z3fooi'', demangled_func = Some (str ''foo(int)''),
                args = [str ''int''], namespaceEnum = Some NONE,
                namespaceName = Some (str ''none''),
                arg_offsets = [(str ''r0'', str ''this''), (str ''r1'', str ''int'')]\<rparr>"
  let ?ti = "\<lparr>mangled_func = str ''_ZTS3Foo'', demangled_func = Some (str ''typeinfo name for Foo''),
          args = [], namespaceEnum = Some NONE, namespaceName = Some (str ''none''),
          arg_offsets = [(str ''r0'', str ''this'')]\<rparr>"
  let ?vt = "\<lparr>mangled_func = str ''_ZTV3Foo'', demangled_func = Some (str ''{vtable(Foo)}''),
          args = [str ''Foo''], namespaceEnum = Some NONE, namespaceName = Some (str ''none''),
          arg_offsets = [(str ''r0'', str ''this''), (str ''r1'', str ''Foo'')]\<rparr>"
  let ?ep = "\<lparr>mangled_func = str ''_Z1fNSt15__exception_ptr13exception_ptrE'',
          demangled_func = Some (str ''f(std::__exception_ptr::exception_ptr)''),
          args = [str ''std::__exception_ptr::exception_ptr''], namespaceEnum = Some NONE,
          namespaceName = Some (str ''none''),
          arg_offsets = [(str ''r0'', str ''this''),
                         (str ''r1'', str ''std::__exception_ptr::exception_ptr'')]\<rparr>"
  let ?one = "\<lparr>functions' = [?foo], version = str ''2.2074''\<rparr>"
  have r: "spec_rejects ?ti" "spec_rejects ?vt" "spec_rejects ?ep" "\<not> spec_rejects ?foo"
    "\<not> spec_rejects (failure_record (str ''_Zbad''))"
    by (simp_all add: spec_rejects_def failure_record_def str_def py_ord_def)
  have z: "py_startswith (str ''_Z3fooi'') (str ''_Z'')"
    "py_startswith (str ''_ZTS3Foo'') (str ''_Z'')"
    "\<not> py_startswith (str ''main'') (str ''_Z'')"
    "py_startswith (str ''_ZTV3Foo'') (str ''_Z'')"
    "py_startswith (str ''_Z1fNSt15__exception_ptr13exception_ptrE'') (str ''_Z'')"
    "py_startswith (str ''_Zbad'') (str ''_Z'')"
    by (simp_all add: py_startswith_def str_def py_ord_def)
  have a0: "add_func sample_demangle ?elf (str ''_ZTS3Foo'') = Inr ?elf"
    using add_func_policy [OF Function_new_typeinfo, of ?elf] r by simp
  have a1: "add_func sample_demangle ?elf (str ''_Z3fooi'') = Inr ?one"
    using add_func_policy [OF Function_new_foo, of ?elf] r by simp
  have a2: "add_func sample_demangle ?one (str ''_ZTS3Foo'') = Inr ?one"
    using add_func_policy [OF Function_new_typeinfo, of ?one] r by simp
  have a3: "add_func sample_demangle ?one (str ''_ZTV3Foo'') = Inr ?one"
    using add_func_policy [OF Function_new_vtable, of ?one] r by simp
  have a4: "add_func sample_demangle ?one (str ''_Z1fNSt15__exception_ptr13exception_ptrE'')
      = Inr ?one"
    using add_func_policy [OF Function_new_eptr, of ?one] r by simp
  have a5: "add_func sample_demangle ?one (str ''_Zbad'')
     = Inr \<lparr>functions' = [?foo, failure_record (str ''_Zbad'')], version = str ''2.2074''\<rparr>"
    using add_func_policy [OF Function_new_bad, of ?one] r by simp
  have c: "cli_symbols sample_demangle ?elf
        [str ''_Z3fooi'', str ''_ZTS3Foo'', str ''main'', str ''_ZTV3Foo'',
         str ''_Z1fNSt15__exception_ptr13exception_ptrE'', str ''_Zbad'']
     = Inr \<lparr>functions' = [?foo, failure_record (str ''_Zbad'')], version = str ''2.2074''\<rparr>"
    by (simp add: z a1 a2 a3 a4 a5)
  show ?thesis
    using exclusion_policy [of sample_demangle "str ''_ZTS3Foo''" ?ti ?elf
        "[str ''_Z3fooi'', str ''_ZTS3Foo'', str ''main'', str ''_ZTV3Foo'',
          str ''_Z1fNSt15__exception_ptr13exception_ptrE'', str ''_Zbad'']"
        "\<lparr>functions' = [?foo, failure_record (str ''_Zbad'')], version = str ''2.2074''\<rparr>"]
      Function_new_typeinfo c a0
    by simp
qed

lemma demangle_arguments_method:
  "demangle_arguments (str ''cococs2d::SomeClass::method(int)'') = Inr [str ''int'']"
  by (simp add: demangle_arguments_def str_def py_ord_def py_split1_def py_rsplit1_def split_cpp_args_def
      bytearray_append_def py_strip_def py_isspace_def push_def)

lemma Function_new_method:
  "Function_new sample_demangle (str ''_ZN7cococs2d9SomeClass6methodEi'') =
     Inr \<lparr>mangled_func = str ''_ZN7cococs2d9SomeClass6methodEi'',
          demangled_func = Some (str ''cococs2d::SomeClass::method(int)''),
          args = [str ''int''], namespaceEnum = Some COCOS2D,
          namespaceName = Some (str ''cocos2d''),
          arg_offsets = [(str ''r0'', str ''this''), (str ''r1'', str ''int'')]\<rparr>"
proof -
  have d: "sample_demangle (str ''_ZN7cococs2d9SomeClass6methodEi'') =
      Inr (str ''cococs2d::SomeClass::method(int)'')"
    by (simp add: sample_demangle_def str_def py_ord_def)
  have n: "find_namespace (str ''cococs2d::SomeClass::method(int)'') = COCOS2D"
    by (simp add: find_namespace_def py_startswith_def str_def py_ord_def)
  have l: "py_lower (str ''COCOS2D'') = str ''cocos2d''"
    by (simp add: py_lower_def str_def py_ord_def)
  have s: "py_strip (str ''int'') = str ''int''"
    by (simp add: py_strip_def py_isspace_def str_def py_ord_def)
  have k: "spec_slot (Suc 0) = str ''r1''"
    by (simp add: spec_slot_def format_i_small str_def py_ord_def)
  show ?thesis
    by (simp add: Function_new_def attrs_post_init_def try_body_def Function_fields_def d
        demangle_arguments_method n l s k spec_slot_0 make_possible_arg_offsets_eq upt_conv_Cons)
qed

text \<open>
  C8. For a collection built by the loop from an empty one, the value handed to the
  encoder has the three keys in order: the entries of the records in insertion order,
  their number as \<^verbatim>\<open>total_functions\<close>, and the version tag the caller supplied. Each
  entry shows the tag of its record as the ordinal NONE=1, STD=2, COCOS2D=3, PUGI=4 and
  as the lower-case name of that tag.
\<close>

theorem as_json_contract:
  assumes "cli_symbols demangle \<lparr>functions' = [], version = v\<rparr> names = Inr elf"
  shows "\<exists>js. as_json elf =
        Inr (JObj [(str ''functions'', JList js),
                   (str ''total_functions'', JInt (int (length (functions' elf)))),
                   (str ''gd-version'', JStr v)])
      \<and> length js = length (functions' elf)
      \<and> list_all2 spec_entry (functions' elf) js"
proof -
  from cli_symbols_collects [OF assms]
  have fs: "functions' elf = filter (\<lambda>f. \<not> spec_rejects f) (constructed demangle names)"
    and v: "version elf = v"
    by simp_all
  have "populated f" if "f \<in> set (functions' elf)" for f
    using that by (auto simp: fs dest: constructed_populated)
  from asdict_all_populated [OF this] obtain js
    where js: "asdict_all (functions' elf) = Inr js" "list_all2 spec_entry (functions' elf) js"
    by blast
  from js(2) have "length js = length (functions' elf)"
    by (simp add: list_all2_lengthD)
  with js v show ?thesis
    by (simp add: as_json_def)
qed

theorem as_json_contract_witness:
  "cli_symbols sample_demangle \<lparr>functions' = [], version = str ''2.2074''\<rparr>
        [str ''_ZN7cococs2d9SomeClass6methodEi'', str ''_ZTS3Foo'']
     = Inr \<lparr>functions' =
              [\<lparr>mangled_func = str ''_ZN7cococs2d9SomeClass6methodEi'',
                demangled_func = Some (str ''cococs2d::SomeClass::method(int)''),
                args = [str ''int''], namespaceEnum = Some COCOS2D,
                namespaceName = Some (str ''cocos2d''),
                arg_offsets = [(str ''r0'', str ''this''), (str ''r1'', str ''int'')]\<rparr>],
            version = str ''2.2074''\<rparr>
   \<and> as_json \<lparr>functions' =
              [\<lparr>mangled_func = str ''_ZN7cococs2d9SomeClass6methodEi'',
                demangled_func = Some (str ''cococs2d::SomeClass::method(int)''),
                args = [str ''int''], namespaceEnum = Some COCOS2D,
                namespaceName = Some (str ''cocos2d''),
                arg_offsets = [(str ''r0'', str ''this''), (str ''r1'', str ''int'')]\<rparr>],
            version = str ''2.2074''\<rparr>
     = Inr (JObj
         [(str ''functions'', JList
            [JObj
              [(str ''mangled_func'', JStr (str ''_ZN7cococs2d9SomeClass6methodEi'')),
               (str ''demangled_func'', JStr (str ''cococs2d::SomeClass::method(int)'')),
               (str ''args'', JList [JStr (str ''int'')]),
               (str ''namespaceEnum'', JInt 3),
               (str ''namespaceName'', JStr (str ''cocos2d'')),
               (str ''arg_offsets'', JObj [(str ''r0'', JStr (str ''this'')),
                                          (str ''r1'', JStr (str ''int''))])]]),
          (str ''total_functions'', JInt 1),
          (str ''gd-version'', JStr (str ''2.2074''))])"
proof -
  let ?elf = "\<lparr>functions' = [], version = str ''2.2074''\<rparr>"
  let ?m = "\<lparr>mangled_func = str ''_ZN7cococs2d9SomeClass6methodEi'',
                demangled_func = Some (str ''cococs2d::SomeClass::method(int)''),
                args = [str ''int''], namespaceEnum = Some COCOS2D,
                namespaceName = Some (str ''cocos2d''),
                arg_offsets = [(str ''r0'', str ''this''), (str ''r1'', str ''int'')]\<rparr>"
  let ?ti = "\<lparr>mangled_func = str ''_ZTS3Foo'', demangled_func = Some (str ''typeinfo name for Foo''),
          args = [], namespaceEnum = Some NONE, namespaceName = Some (str ''none''),
          arg_offsets = [(str ''r0'', str ''this'')]\<rparr>"
  have r1: "spec_rejects ?ti"
    by (simp add: spec_rejects_def str_def py_ord_def)
  have r2: "\<not> spec_rejects ?m"
    by (simp add: spec_rejects_def str_def py_ord_def)
  have z: "py_startswith (str ''_ZN7cococs2d9SomeClass6methodEi'') (str ''_Z'')"
    "py_startswith (str ''_ZTS3Foo'') (str ''_Z'')"
    by (simp_all add: py_startswith_def str_def py_ord_def)
  have a1: "add_func sample_demangle ?elf (str ''_ZN7cococs2d9SomeClass6methodEi'')
      = Inr \<lparr>functions' = [?m], version = str ''2.2074''\<rparr>"
    using add_func_policy [OF Function_new_method, of ?elf] r2 by simp
  have a2: "add_func sample_demangle \<lparr>functions' = [?m], version = str ''2.2074''\<rparr> (str ''_ZTS3Foo'')
     = Inr \<lparr>functions' = [?m], version = str ''2.2074''\<rparr>"
    using add_func_policy [OF Function_new_typeinfo, of "\<lparr>functions' = [?m], version = str ''2.2074''\<rparr>"] r1 by simp
  have c: "cli_symbols sample_demangle ?elf
        [str ''_ZN7cococs2d9SomeClass6methodEi'', str ''_ZTS3Foo'']
     = Inr \<lparr>functions' = [?m], version = str ''2.2074''\<rparr>"
    by (simp add: z a1 a2)
  have v: "NamespaceEnum_value COCOS2D = 3"
    by (simp add: NamespaceEnum_value_def NamespaceEnum_members_def)
  from as_json_contract [OF c] c show ?thesis
    by (simp add: as_json_def asdict_Function_def v)
qed

subsection \<open>The argument splitter\<close>

lemma decode_ascii: "is_ascii b \<Longrightarrow> decode b = Inr b"
  by (induction b) (simp_all add: is_ascii_def push_def)

lemma fields_between_nonempty: "fields_between data start ps \<noteq> []"
  by (cases ps) simp_all

lemma fields_between_subset:
  "f \<in> set (fields_between data start ps) \<Longrightarrow> set f \<subseteq> set data"
proof (induction ps arbitrary: start)
  case Nil
  then show ?case by (auto dest: in_set_dropD)
next
  case (Cons p ps)
  then show ?case by (auto dest: in_set_dropD in_set_takeD)
qed

lemma depth_at_step:
  "depth_at (pre @ d # ds) (Suc (length pre)) =
     depth_at (pre @ d # ds) (length pre)
     + (if d = py_ord CHR ''<'' then 1 else if d = py_ord CHR ''>'' then - 1 else 0)"
  by (simp add: depth_at_def py_ord_def)

lemma split_loop_byte:
  "d < 256 \<Longrightarrow>
   split_loop (d # ds) as b fb =
     (if d = py_ord CHR '','' \<and> fb = 0 then
        (case decode b of
           Inl e \<Rightarrow> Inl e
         | Inr s \<Rightarrow> split_loop ds (as @ [py_strip s]) [] fb)
      else split_loop ds as (b @ [d])
             (fb + (if d = py_ord CHR ''<'' then 1 else if d = py_ord CHR ''>'' then - 1 else 0)))"
  by (simp add: bytearray_append_def py_ord_def)

lemma split_loop_fields:
  assumes "is_ascii (pre @ ds)" and "start \<le> length pre"
  shows "split_loop ds as (drop start pre) (depth_at (pre @ ds) (length pre)) =
     (let fs = fields_between (pre @ ds) start
                 (filter (top_level_comma (pre @ ds)) [length pre..<length (pre @ ds)])
      in Inr (as @ map py_strip (butlast fs), last fs))"
  using assms
proof (induction ds arbitrary: pre as start)
  case Nil
  then show ?case by simp
next
  case (Cons d ds)
  let ?data = "pre @ d # ds"
  let ?pre = "pre @ [d]"
  define ps where "ps = filter (top_level_comma ?data) [Suc (length pre)..<length ?data]"
  define b where "b = drop start pre"
  define fb where "fb = depth_at ?data (length pre)"
  have data: "?pre @ ds = ?data" and len: "length ?pre = Suc (length pre)"
    by simp_all
  have ascii: "is_ascii (?pre @ ds)"
    using Cons.prems(1) by simp
  have d: "d < 256"
    using Cons.prems(1) by (simp add: is_ascii_def)
  have lt: "length pre < length ?data"
    by simp
  have filt: "filter (top_level_comma ?data) [length pre..<length ?data] =
      (if top_level_comma ?data (length pre) then length pre # ps else ps)"
    unfolding ps_def by (subst upt_conv_Cons [OF lt]) (simp only: filter.simps)
  have tlc: "top_level_comma ?data (length pre) \<longleftrightarrow> d = py_ord CHR '','' \<and> fb = 0"
    by (simp add: top_level_comma_def fb_def)
  have step: "depth_at ?data (Suc (length pre)) =
     fb + (if d = py_ord CHR ''<'' then 1 else if d = py_ord CHR ''>'' then - 1 else 0)"
    unfolding fb_def by (rule depth_at_step)
  have IH: "split_loop ds as' (drop start' ?pre) (depth_at ?data (Suc (length pre))) =
       (let fs = fields_between ?data start' ps
        in Inr (as' @ map py_strip (butlast fs), last fs))"
    if "start' \<le> Suc (length pre)" for start' as'
    using Cons.IH [of ?pre start' as', OF ascii] that
    by (simp only: data len ps_def)
  show ?case
  proof (cases "top_level_comma ?data (length pre)")
    case True
    with tlc have comma: "d = py_ord CHR '',''" and zero: "fb = 0"
      by auto
    have "is_ascii b"
      using Cons.prems(1) by (auto simp: is_ascii_def b_def dest: in_set_dropD)
    then have dec: "decode b = Inr b"
      by (rule decode_ascii)
    define fs where "fs = fields_between ?data (Suc (length pre)) ps"
    have ne: "fs \<noteq> []"
      by (simp add: fs_def fields_between_nonempty)
    have stepc: "depth_at ?data (Suc (length pre)) = 0"
      using step comma zero by (simp add: py_ord_def)
    have "split_loop (d # ds) as b fb = split_loop ds (as @ [py_strip b]) [] 0"
      using split_loop_byte [OF d, of ds as b fb] comma zero dec
      by (simp del: split_loop.simps)
    also have "\<dots> = Inr ((as @ [py_strip b]) @ map py_strip (butlast fs), last fs)"
      using IH [of "Suc (length pre)" "as @ [py_strip b]"]
      by (simp add: stepc fs_def Let_def)
    finally have lhs: "split_loop (d # ds) as b fb =
        Inr (as @ py_strip b # map py_strip (butlast fs), last fs)"
      by simp
    have "take (length pre - start) (drop start ?data) = drop start pre"
      using Cons.prems(2) by simp
    then have "take (length pre - start) (drop start ?data) = b"
      by (simp only: b_def)
    then have "fields_between ?data start (length pre # ps) = b # fs"
      by (simp only: fields_between.simps fs_def)
    with True filt ne lhs show ?thesis
      by (simp add: b_def fb_def Let_def)
  next
    case False
    define fs where "fs = fields_between ?data start ps"
    have bd: "b @ [d] = drop start ?pre"
      using Cons.prems(2) by (simp add: b_def)
    from False tlc have "split_loop (d # ds) as b fb =
        split_loop ds as (b @ [d]) (depth_at ?data (Suc (length pre)))"
      using split_loop_byte [OF d, of ds as b fb] by (simp only: step if_False)
    also have "\<dots> = Inr (as @ map py_strip (butlast fs), last fs)"
      using IH [of start as] Cons.prems(2) by (simp add: bd fs_def Let_def)
    finally show ?thesis
      using False filt by (simp add: b_def fb_def fs_def Let_def)
  qed
qed

lemma split_cpp_args_refines:
  assumes "is_ascii data"
  shows "split_cpp_args data = Inr (spec_split data)"
proof -
  define fs where "fs = fields_between data 0 (top_level_commas data)"
  have loop: "split_loop data [] [] 0 = Inr (map py_strip (butlast fs), last fs)"
    using split_loop_fields [of "[]" data 0 "[]"] assms
    by (simp add: fs_def top_level_commas_def depth_at_def Let_def)
  have ne: "fs \<noteq> []"
    by (simp add: fs_def fields_between_nonempty)
  then have "last fs \<in> set fs" by simp
  then have "set (last fs) \<subseteq> set data"
    unfolding fs_def by (rule fields_between_subset)
  with assms have "is_ascii (last fs)"
    by (auto simp: is_ascii_def)
  then have dec: "decode (last fs) = Inr (last fs)"
    by (rule decode_ascii)
  have "map py_strip (butlast fs) @ [py_strip (last fs)] = map py_strip fs"
    using ne by (metis append_butlast_last_id list.simps(8,9) map_append)
  with loop dec show ?thesis
    by (simp add: split_cpp_args_def spec_split_def fs_def [symmetric] map_butlast)
qed

text \<open>
  Beyond ASCII the splitter need not return: a character that does not fit a byte makes
  it raise, wherever the character stands.
\<close>

lemma split_loop_wide_char:
  "\<exists>c\<in>set ds. 256 \<le> c \<Longrightarrow> \<exists>e. split_loop ds as b fb = Inl e"
proof (induction ds arbitrary: as b fb)
  case Nil
  then show ?case by simp
next
  case (Cons d ds)
  show ?case
  proof (cases "256 \<le> d")
    case True
    then show ?thesis
      by (simp add: bytearray_append_def py_ord_def)
  next
    case False
    with Cons.prems have "\<exists>c\<in>set ds. 256 \<le> c"
      by auto
    from Cons.IH [OF this] show ?thesis
      by (simp add: bytearray_append_def split: sum.splits)
  qed
qed

lemma split_cpp_args_wide_char:
  "\<exists>c\<in>set data. 256 \<le> c \<Longrightarrow> \<exists>e. split_cpp_args data = Inl e"
  using split_loop_wide_char [of data "[]" "[]" 0]
  by (auto simp: split_cpp_args_def)

lemma split_example:
  "split_cpp_args (str ''std::map<int, std::string>, float'') =
     Inr [str ''std::map<int, std::string>'', str ''float'']"
  by (simp add: split_cpp_args_def str_def py_ord_def bytearray_append_def push_def
      py_strip_def py_isspace_def)

lemma inside_balanced_deeper:
  "inside_balanced data lo hi n \<Longrightarrow> depth_at data lo < depth_at data n"
  by (simp add: inside_balanced_def list_all_iff)

lemma inside_balanced_not_separator:
  "inside_balanced data lo hi n \<Longrightarrow> 0 \<le> depth_at data lo \<Longrightarrow> \<not> top_level_comma data n"
  using inside_balanced_deeper [of data lo hi n] by (simp add: top_level_comma_def)

lemma tlc_set: "n \<in> set (top_level_commas data) \<longleftrightarrow> n < length data \<and> top_level_comma data n"
  by (auto simp: top_level_commas_def)

text \<open>
  C3, amended. On an input of ASCII characters the splitter returns the fields of the
  specification: the pieces between the commas at depth 0, each trimmed, the last piece
  left out when it is empty before trimming. A comma inside a balanced pair of angle
  brackets is none of these separators, provided the depth is not negative at the
  opening bracket. The empty input gives no field, and the comma inside
  \<^verbatim>\<open>std::map<int, std::string>\<close> does not separate.
\<close>

theorem split_cpp_args_ascii:
  "(is_ascii data \<longrightarrow> split_cpp_args data = Inr (spec_split data))
   \<and> (inside_balanced data lo hi n \<and> 0 \<le> depth_at data lo \<longrightarrow>
        n \<notin> set (top_level_commas data))
   \<and> split_cpp_args [] = Inr []
   \<and> split_cpp_args (str ''std::map<int, std::string>, float'') =
       Inr [str ''std::map<int, std::string>'', str ''float'']"
  using split_cpp_args_refines [of data] split_example
    inside_balanced_not_separator [of data lo hi n]
  by (auto simp: split_cpp_args_def tlc_set)

lemma example_ascii: "is_ascii (str ''std::map<int, std::string>, float'')"
  by (simp add: is_ascii_def str_def py_ord_def)

lemma stray_example:
  "split_cpp_args (str ''x>y<a,b>'') = Inr [str ''x>y<a'', str ''b>'']"
  by (simp add: split_cpp_args_def str_def py_ord_def bytearray_append_def push_def
      py_strip_def py_isspace_def)

lemma stray_inside: "inside_balanced (str ''x>y<a,b>'') 3 7 5"
  by (simp add: inside_balanced_def depth_at_def str_def py_ord_def upt_conv_Cons)

lemma stray_separator: "5 \<in> set (top_level_commas (str ''x>y<a,b>''))"
  by (simp add: tlc_set top_level_comma_def depth_at_def str_def py_ord_def)

lemma example_inside: "inside_balanced (str ''std::map<int, std::string>, float'') 8 25 12"
  by (simp add: inside_balanced_def depth_at_def str_def py_ord_def upt_conv_Cons)

theorem split_cpp_args_ascii_witness:
  "is_ascii (str ''std::map<int, std::string>, float'')
   \<and> spec_split (str ''std::map<int, std::string>, float'') =
       [str ''std::map<int, std::string>'', str ''float'']
   \<and> inside_balanced (str ''std::map<int, std::string>, float'') 8 25 12
   \<and> 0 \<le> depth_at (str ''std::map<int, std::string>, float'') 8
   \<and> 12 \<notin> set (top_level_commas (str ''std::map<int, std::string>, float''))"
proof -
  let ?x = "str ''std::map<int, std::string>, float''"
  have d: "0 \<le> depth_at ?x 8"
    by (simp add: depth_at_def str_def py_ord_def)
  from split_cpp_args_ascii [of ?x 8 25 12] example_ascii example_inside d
  have "split_cpp_args ?x = Inr (spec_split ?x)"
    and "split_cpp_args ?x = Inr [str ''std::map<int, std::string>'', str ''float'']"
    and "12 \<notin> set (top_level_commas ?x)"
    by blast+
  then have "spec_split ?x = [str ''std::map<int, std::string>'', str ''float'']"
    and "12 \<notin> set (top_level_commas ?x)"
    by simp_all
  with example_ascii example_inside d show ?thesis
    by simp
qed

text \<open>
  C3 as stated fails on two inputs. With a character above the byte range, appending it
  to the buffer raises ValueError, so no list of fields is returned. And after a stray
  \<^verbatim>\<open>>\<close> the depth is back at 0 inside the next balanced pair of brackets, so the comma
  between \<^verbatim>\<open><\<close> and \<^verbatim>\<open>>\<close> in \<^verbatim>\<open>x>y<a,b>\<close> separates.
\<close>

theorem split_cpp_args_raises:
  "split_cpp_args (str ''int, '' @ [8364]) = Inl ValueError
   \<and> split_cpp_args (str ''int, '' @ [8364]) \<noteq> Inr (spec_split (str ''int, '' @ [8364]))
   \<and> is_ascii (str ''x>y<a,b>'')
   \<and> inside_balanced (str ''x>y<a,b>'') 3 7 5
   \<and> 5 \<in> set (top_level_commas (str ''x>y<a,b>''))
   \<and> split_cpp_args (str ''x>y<a,b>'') = Inr [str ''x>y<a'', str ''b>'']"
proof -
  have "split_cpp_args (str ''int, '' @ [8364]) = Inl ValueError"
    by (simp add: split_cpp_args_def str_def py_ord_def bytearray_append_def push_def)
  moreover have "is_ascii (str ''x>y<a,b>'')"
    by (simp add: is_ascii_def str_def py_ord_def)
  ultimately show ?thesis
    using stray_example stray_inside stray_separator by simp
qed

subsection \<open>Signatures in braces\<close>

lemma py_in_char: "py_in [c] s \<longleftrightarrow> c \<in> set s"
  by (induction s) auto

lemma split1_from_char:
  "split1_from [c] cur s =
     (if c \<in> set s then [cur @ takeWhile (\<lambda>x. x \<noteq> c) s, tl (dropWhile (\<lambda>x. x \<noteq> c) s)]
      else [cur @ s])"
  by (induction s arbitrary: cur) auto

lemma last_split1: "last (py_split1 s [c]) = after_first c s"
  by (simp add: py_split1_def split1_from_char after_first_def)

lemma hd_rsplit1: "hd (py_rsplit1 s [c]) = before_last c s"
  by (simp add: py_rsplit1_def py_split1_def split1_from_char before_last_def)

lemma str_char: "str [c] = [py_ord c]"
  by (simp add: str_def)

lemma normal_without_braces:
  "py_ord CHR ''{'' \<notin> set func \<Longrightarrow> demangle_arguments func = normal_extraction func"
  by (simp add: demangle_arguments_def normal_extraction_def str_char py_in_char)

lemma normal_extraction_between:
  "normal_extraction s =
     (if py_ord CHR ''('' \<in> set s then split_cpp_args (between_parens s) else Inr [])"
  by (simp add: normal_extraction_def between_parens_def str_char py_in_char last_split1
      hd_rsplit1)

lemma first_index_less: "c \<in> set s \<Longrightarrow> length (takeWhile (\<lambda>x. x \<noteq> c) s) < length s"
  by (induction s) auto

lemma first_comma_cut:
  assumes "c \<in> set s"
  shows "filter (\<lambda>n. s ! n = c \<and> Q n) [0..<length s] =
     (let p = length (takeWhile (\<lambda>x. x \<noteq> c) s)
      in (if Q p then [p] else []) @ filter (\<lambda>n. s ! n = c \<and> Q n) [Suc p..<length s])"
proof -
  define p where "p = length (takeWhile (\<lambda>x. x \<noteq> c) s)"
  have lt: "p < length s"
    using assms unfolding p_def by (rule first_index_less)
  have at: "s ! p = c"
    using nth_length_takeWhile [of "\<lambda>x. x \<noteq> c" s] lt by (simp add: p_def)
  have before: "s ! n \<noteq> c" if "n < p" for n
    using that takeWhile_nth [of n "\<lambda>x. x \<noteq> c" s] nth_mem [of n "takeWhile (\<lambda>x. x \<noteq> c) s"]
    by (auto simp: p_def dest: set_takeWhileD)
  have "[0..<length s] = [0..<p] @ [p..<length s]"
    using upt_add_eq_append [of 0 p "length s - p"] lt by simp
  then have "[0..<length s] = [0..<p] @ p # [Suc p..<length s]"
    using upt_conv_Cons [OF lt] by simp
  moreover have "filter (\<lambda>n. s ! n = c \<and> Q n) [0..<p] = []"
    using before by (auto simp: filter_empty_conv)
  ultimately show ?thesis
    using at by (simp add: p_def [symmetric] Let_def)
qed

lemma after_top_level_comma_first:
  "first_comma_top_level s \<Longrightarrow>
   spec_after_top_level_comma s = after_first (py_ord CHR '','') s"
proof (cases "py_ord CHR '','' \<in> set s")
  case False
  then have "\<not> top_level_comma s n" if "n < length s" for n
    using that by (metis nth_mem top_level_comma_def)
  then have "top_level_commas s = []"
    by (simp add: top_level_commas_def filter_empty_conv)
  with False show ?thesis
    by (simp add: spec_after_top_level_comma_def after_first_def)
next
  case True
  assume "first_comma_top_level s"
  with True have d: "depth_at s (length (takeWhile (\<lambda>c. c \<noteq> py_ord CHR '','') s)) = 0"
    by (simp add: first_comma_top_level_def)
  have "top_level_commas s = filter (\<lambda>n. s ! n = py_ord CHR '','' \<and> depth_at s n = 0) [0..<length s]"
    by (simp add: top_level_commas_def top_level_comma_def [abs_def])
  with first_comma_cut [OF True, of "\<lambda>n. depth_at s n = 0"] d
  obtain ps where "top_level_commas s = length (takeWhile (\<lambda>c. c \<noteq> py_ord CHR '','') s) # ps"
    by (simp add: Let_def)
  with True show ?thesis
    by (simp add: spec_after_top_level_comma_def after_first_def dropWhile_eq_drop drop_Suc
        drop_tl)
qed

lemma after_first_append_left:
  "c \<notin> set x \<Longrightarrow> after_first c (x @ t) = (if c \<in> set t then after_first c t else x @ t)"
  by (induction x) (auto simp: after_first_def)

lemma after_first_append_right:
  "c \<in> set t \<Longrightarrow> after_first c (t @ y) = after_first c t @ y"
  by (induction t) (auto simp: after_first_def)

lemma before_last_append_right:
  "c \<in> set t \<Longrightarrow> c \<notin> set y \<Longrightarrow> before_last c (t @ y) = before_last c t"
proof -
  assume t: "c \<in> set t" and y: "c \<notin> set y"
  from y have "dropWhile (\<lambda>x. x \<noteq> c) (rev y @ rev t) = dropWhile (\<lambda>x. x \<noteq> c) (rev t)"
    by (intro dropWhile_append2) auto
  with t show ?thesis
    by (simp add: before_last_def)
qed

lemma strip_braces_inner:
  assumes "p \<noteq> q"
  shows "rev (dropWhile (\<lambda>c. c = q) (rev (dropWhile (\<lambda>c. c = p) (p # t @ [q])))) =
         rev (dropWhile (\<lambda>c. c = q) (rev (dropWhile (\<lambda>c. c = p) t)))"
proof (cases "dropWhile (\<lambda>c. c = p) t = []")
  case True
  then have "\<And>x. x \<in> set t \<Longrightarrow> x = p"
    by (simp add: dropWhile_eq_Nil_conv)
  then have "dropWhile (\<lambda>c. c = p) (t @ [q]) = dropWhile (\<lambda>c. c = p) [q]"
    by (intro dropWhile_append2) auto
  also have "\<dots> = [q]"
    using assms by auto
  finally have "dropWhile (\<lambda>c. c = p) (p # t @ [q]) = [q]"
    by simp
  then show ?thesis
    unfolding True by simp
next
  case False
  then obtain x where "x \<in> set t" "x \<noteq> p"
    by (auto simp: dropWhile_eq_Nil_conv)
  then have "dropWhile (\<lambda>c. c = p) (t @ [q]) = dropWhile (\<lambda>c. c = p) t @ [q]"
    by (intro dropWhile_append1) auto
  then show ?thesis
    by simp
qed

lemma strip_decomposition:
  "\<exists>x y. t = x @ rev (dropWhile Q (rev (dropWhile P t))) @ y
     \<and> (\<forall>c\<in>set x. P c) \<and> (\<forall>c\<in>set y. Q c)"
proof -
  let ?m = "dropWhile P t"
  have "t = takeWhile P t @ ?m"
    by simp
  moreover have "rev ?m = takeWhile Q (rev ?m) @ dropWhile Q (rev ?m)"
    by simp
  then have "?m = rev (dropWhile Q (rev ?m)) @ rev (takeWhile Q (rev ?m))"
    by (metis rev_append rev_rev_ident)
  ultimately have "t = takeWhile P t @ rev (dropWhile Q (rev ?m)) @ rev (takeWhile Q (rev ?m))"
    by metis
  moreover have "\<forall>c\<in>set (takeWhile P t). P c"
    by (auto dest: set_takeWhileD)
  moreover have "\<forall>c\<in>set (rev (takeWhile Q (rev ?m))). Q c"
    by (auto dest: set_takeWhileD)
  ultimately show ?thesis
    by blast
qed

lemma wrapped_form:
  assumes "wrapped_in_braces func"
  shows "func = py_ord CHR ''{'' # spec_strip_outer_braces func @ [py_ord CHR ''}'']"
proof -
  from assms have len: "2 \<le> length func" and h: "hd func = py_ord CHR ''{''"
    and l: "last func = py_ord CHR ''}''"
    by (simp_all add: wrapped_in_braces_def)
  from len have ne: "func \<noteq> []" and r: "tl func \<noteq> []"
    by (cases func; auto)+
  from r have "tl func = butlast (tl func) @ [last (tl func)]"
    by simp
  moreover from ne r have "last (tl func) = last func"
    by (simp add: last_tl)
  moreover from ne have "func = hd func # tl func"
    by simp
  ultimately show ?thesis
    using h l by (simp add: spec_strip_outer_braces_def)
qed

lemma rstrip_plain:
  "a = [] \<or> last a \<noteq> c \<Longrightarrow> rev (dropWhile (\<lambda>x. x = c) (rev a)) = a"
  by (cases a rule: rev_cases) auto

lemma rstrip_wrapper_paren:
  assumes "plain_end (strip_wrapper_paren e)"
  shows "py_rstrip e (str '')'') = strip_wrapper_paren e"
proof (cases "e \<noteq> [] \<and> last e = py_ord CHR '')'' \<and> paren_balance e < 0")
  case True
  then have e: "e = butlast e @ [py_ord CHR '')'']"
    by (metis append_butlast_last_id)
  have sb: "strip_wrapper_paren e = butlast e"
    unfolding strip_wrapper_paren_def using True by (rule if_P)
  with assms have "butlast e = [] \<or> last (butlast e) \<noteq> py_ord CHR '')''"
    by (simp add: plain_end_def)
  then have "rev (dropWhile (\<lambda>x. x = py_ord CHR '')'') (rev (butlast e))) = butlast e"
    by (rule rstrip_plain)
  moreover have "py_rstrip e (str '')'') =
      rev (dropWhile (\<lambda>x. x = py_ord CHR '')'') (rev (butlast e)))"
    by (subst e) (simp add: py_rstrip_def str_char)
  ultimately show ?thesis
    using sb by simp
next
  case False
  then have s: "strip_wrapper_paren e = e"
    unfolding strip_wrapper_paren_def by (rule if_not_P)
  with assms have "e = [] \<or> last e \<noteq> py_ord CHR '')''"
    by (simp add: plain_end_def)
  then have "rev (dropWhile (\<lambda>x. x = py_ord CHR '')'') (rev e)) = e"
    by (rule rstrip_plain)
  with s show ?thesis
    by (simp add: py_rstrip_def str_char)
qed

lemma demangle_arguments_braces:
  assumes "py_ord CHR ''{'' \<in> set func"
  shows "demangle_arguments func =
     split_cpp_args
       (py_rstrip
          (between_parens
             (after_first (py_ord CHR '','')
                (py_rstrip (py_lstrip func (str ''{'')) (str ''}''))))
          (str '')''))"
  using assms
  by (simp add: demangle_arguments_def str_char py_in_char last_split1 hd_rsplit1 Let_def
      between_parens_def)

lemma extraction_ignores_braces:
  assumes x: "\<forall>c\<in>set x. c = py_ord CHR ''{''" and y: "\<forall>c\<in>set y. c = py_ord CHR ''}''"
    and list: "has_parenthesised_list (after_first (py_ord CHR '','') (x @ s @ y))"
  shows "between_parens (after_first (py_ord CHR '','') (x @ s @ y)) =
         between_parens (after_first (py_ord CHR '','') s)"
proof -
  let ?c = "py_ord CHR '',''" and ?l = "py_ord CHR ''(''" and ?r = "py_ord CHR '')''"
  have nx: "?c \<notin> set x" "?l \<notin> set x"
    using x by (auto simp: py_ord_def)
  have ny: "?c \<notin> set y" "?l \<notin> set y" "?r \<notin> set y"
    using y by (auto simp: py_ord_def)
  from list have l: "?l \<in> set (after_first ?c (x @ s @ y))"
    and r: "?r \<in> set (after_first ?l (after_first ?c (x @ s @ y)))"
    by (simp_all add: has_parenthesised_list_def)
  define c1 where "c1 = after_first ?c s"
  have cut: "after_first ?l (after_first ?c (x @ s @ y)) = after_first ?l c1 @ y"
  proof (cases "?c \<in> set s")
    case True
    then have a: "after_first ?c (x @ s @ y) = c1 @ y"
      using nx(1) by (simp add: after_first_append_left after_first_append_right c1_def)
    with l ny(2) have "?l \<in> set c1"
      by auto
    with a show ?thesis
      by (simp add: after_first_append_right)
  next
    case False
    with nx(1) ny(1) have a: "after_first ?c (x @ s @ y) = x @ s @ y" and c: "c1 = s"
      by (simp_all add: after_first_def c1_def)
    with l nx(2) ny(2) have "?l \<in> set s"
      by auto
    with a c nx(2) show ?thesis
      by (simp add: after_first_append_left after_first_append_right)
  qed
  with r ny(3) have "?r \<in> set (after_first ?l c1)"
    by auto
  with cut ny(3) show ?thesis
    by (simp add: between_parens_def before_last_append_right c1_def)
qed

text \<open>
  C7, amended. Take a signature wrapped in braces whose first comma inside the braces,
  if it has one, is top-level, whose remainder after that comma has a parenthesised list,
  and whose argument text does not itself end with \<^verbatim>\<open>)\<close>. Extraction strips the outer
  braces, discards everything up to and including the first top-level comma, applies the
  extraction used for other signatures to the remainder, takes the unmatched \<^verbatim>\<open>)\<close>
  that closed the wrapper off the end of the extracted text, and splits.
\<close>

theorem brace_extraction:
  assumes wrapped: "wrapped_in_braces func"
    and comma: "first_comma_top_level (spec_strip_outer_braces func)"
    and list: "has_parenthesised_list
        (spec_after_top_level_comma (spec_strip_outer_braces func))"
    and plain: "plain_end (strip_wrapper_paren (between_parens
        (spec_after_top_level_comma (spec_strip_outer_braces func))))"
  shows "demangle_arguments func = amended_brace_arguments func"
proof -
  let ?L = "py_ord CHR ''{''" and ?R = "py_ord CHR ''}''"
  define inner where "inner = spec_strip_outer_braces func"
  define s where "s = py_rstrip (py_lstrip func (str ''{'')) (str ''}'')"
  define rem where "rem = spec_after_top_level_comma inner"
  have func: "func = ?L # inner @ [?R]"
    unfolding inner_def using wrapped by (rule wrapped_form)
  then have brace: "?L \<in> set func"
    by (metis list.set_intros(1))
  have ne: "?L \<noteq> ?R"
    by (simp add: py_ord_def)
  have "py_rstrip (py_lstrip (?L # inner @ [?R]) (str ''{'')) (str ''}'') =
      rev (dropWhile (\<lambda>c. c = ?R) (rev (dropWhile (\<lambda>c. c = ?L) inner)))"
    using strip_braces_inner [OF ne, of inner]
    by (simp add: py_lstrip_def py_rstrip_def str_char)
  then have s: "s = rev (dropWhile (\<lambda>c. c = ?R) (rev (dropWhile (\<lambda>c. c = ?L) inner)))"
    unfolding s_def by (subst func)
  from strip_decomposition [of inner "\<lambda>c. c = ?R" "\<lambda>c. c = ?L"] s
  obtain x y where decomp: "inner = x @ s @ y"
    and x: "\<forall>c\<in>set x. c = ?L" and y: "\<forall>c\<in>set y. c = ?R"
    by auto
  have rem: "rem = after_first (py_ord CHR '','') inner"
    unfolding rem_def using comma by (simp add: after_top_level_comma_first inner_def)
  from list have list': "has_parenthesised_list (after_first (py_ord CHR '','') (x @ s @ y))"
    by (simp add: rem [unfolded rem_def] inner_def [symmetric] decomp [symmetric])
  have "between_parens rem = between_parens (after_first (py_ord CHR '','') s)"
    unfolding rem decomp using x y list' by (rule extraction_ignores_braces)
  then have "demangle_arguments func = split_cpp_args (py_rstrip (between_parens rem) (str '')''))"
    using demangle_arguments_braces [OF brace] by (simp add: s_def)
  also have "py_rstrip (between_parens rem) (str '')'') = strip_wrapper_paren (between_parens rem)"
    using plain by (intro rstrip_wrapper_paren) (simp add: rem_def inner_def)
  finally show ?thesis
    using list by (simp add: amended_brace_arguments_def has_parenthesised_list_def
        rem_def inner_def)
qed

theorem brace_extraction_witness:
  "wrapped_in_braces (str ''{virtual override thunk({offset(-8)}, Foo::bar(int, float))}'')
   \<and> first_comma_top_level
        (spec_strip_outer_braces
          (str ''{virtual override thunk({offset(-8)}, Foo::bar(int, float))}''))
   \<and> spec_after_top_level_comma
        (spec_strip_outer_braces
          (str ''{virtual override thunk({offset(-8)}, Foo::bar(int, float))}''))
       = str '' Foo::bar(int, float))''
   \<and> has_parenthesised_list (str '' Foo::bar(int, float))'')
   \<and> strip_wrapper_paren (between_parens (str '' Foo::bar(int, float))'')) = str ''int, float''
   \<and> plain_end (str ''int, float'')
   \<and> amended_brace_arguments
        (str ''{virtual override thunk({offset(-8)}, Foo::bar(int, float))}'')
       = Inr [str ''int'', str ''float'']
   \<and> demangle_arguments (str ''{virtual override thunk({offset(-8)}, Foo::bar(int, float))}'')
       = Inr [str ''int'', str ''float'']"
proof -
  let ?x = "str ''{virtual override thunk({offset(-8)}, Foo::bar(int, float))}''"
  let ?i = "str ''virtual override thunk({offset(-8)}, Foo::bar(int, float))''"
  let ?r = "str '' Foo::bar(int, float))''"
  have w: "wrapped_in_braces ?x"
    by (simp add: wrapped_in_braces_def str_def py_ord_def)
  have i: "spec_strip_outer_braces ?x = ?i"
    by (simp add: spec_strip_outer_braces_def str_def py_ord_def)
  have c: "first_comma_top_level ?i"
    by (simp add: first_comma_top_level_def depth_at_def str_def py_ord_def)
  have "after_first (py_ord CHR '','') ?i = ?r"
    by (simp add: after_first_def str_def py_ord_def)
  with c have r: "spec_after_top_level_comma ?i = ?r"
    by (simp add: after_top_level_comma_first)
  have l: "has_parenthesised_list ?r"
    by (simp add: has_parenthesised_list_def after_first_def str_def py_ord_def)
  have b: "between_parens ?r = str ''int, float)''"
    by (simp add: between_parens_def before_last_def after_first_def str_def py_ord_def)
  have s: "strip_wrapper_paren (str ''int, float)'') = str ''int, float''"
    by (simp add: strip_wrapper_paren_def paren_balance_def str_def py_ord_def)
  have p: "plain_end (str ''int, float'')"
    by (simp add: plain_end_def str_def py_ord_def)
  have v: "split_cpp_args (str ''int, float'') = Inr [str ''int'', str ''float'']"
    by (simp add: split_cpp_args_def str_def py_ord_def bytearray_append_def push_def
      py_strip_def py_isspace_def)
  have a: "amended_brace_arguments ?x = Inr [str ''int'', str ''float'']"
    using l by (simp add: amended_brace_arguments_def i r b s v has_parenthesised_list_def)
  from brace_extraction [of ?x] w c l p a show ?thesis
    by (simp add: i r b s)
qed

lemma thunk_code:
  "demangle_arguments (str ''{virtual override thunk({offset(-8)}, Foo::bar(int))}'')
     = Inr [str ''int'']"
  by (simp add: demangle_arguments_def str_def py_ord_def py_split1_def py_rsplit1_def
      py_lstrip_def py_rstrip_def split_cpp_args_def bytearray_append_def push_def
      py_strip_def py_isspace_def)

text \<open>
  The trailing \<^verbatim>\<open>)\<close> are all taken off, also those of the last argument's own type.
\<close>

lemma thunk_function_pointer:
  "demangle_arguments (str ''{virtual override thunk({offset(-8)}, Foo::bar(void (*)()))}'')
     = Inr [str ''void (*)('']"
  by (simp add: demangle_arguments_def str_def py_ord_def py_split1_def py_rsplit1_def
      py_lstrip_def py_rstrip_def split_cpp_args_def bytearray_append_def push_def
      py_strip_def py_isspace_def)

lemma original_after_first_comma:
  "first_comma_top_level (spec_strip_outer_braces func) \<Longrightarrow>
   spec_brace_arguments func =
     normal_extraction (after_first (py_ord CHR '','') (spec_strip_outer_braces func))"
  by (simp add: spec_brace_arguments_def after_top_level_comma_first)

lemma thunk_int_original:
  "spec_brace_arguments (str ''{virtual override thunk({offset(-8)}, Foo::bar(int))}'')
     = Inr [str ''int)'']"
proof -
  let ?x = "str ''{virtual override thunk({offset(-8)}, Foo::bar(int))}''"
  have i: "spec_strip_outer_braces ?x = str ''virtual override thunk({offset(-8)}, Foo::bar(int))''"
    by (simp add: spec_strip_outer_braces_def str_def py_ord_def)
  have c: "first_comma_top_level (str ''virtual override thunk({offset(-8)}, Foo::bar(int))'')"
    by (simp add: first_comma_top_level_def depth_at_def str_def py_ord_def)
  have a: "after_first (py_ord CHR '','') (str ''virtual override thunk({offset(-8)}, Foo::bar(int))'')
      = str '' Foo::bar(int))''"
    by (simp add: after_first_def str_def py_ord_def)
  have "normal_extraction (str '' Foo::bar(int))'') = Inr [str ''int)'']"
    by (simp add: normal_extraction_def str_def py_ord_def py_split1_def py_rsplit1_def
      split_cpp_args_def bytearray_append_def push_def py_strip_def py_isspace_def)
  with original_after_first_comma [of ?x] i c a show ?thesis
    by simp
qed

lemma thunk_pointer_original:
  "spec_brace_arguments
     (str ''{virtual override thunk({offset(-8)}, Foo::bar(void (*)()))}'')
     = Inr [str ''void (*)())'']"
proof -
  let ?x = "str ''{virtual override thunk({offset(-8)}, Foo::bar(void (*)()))}''"
  let ?i = "str ''virtual override thunk({offset(-8)}, Foo::bar(void (*)()))''"
  have i: "spec_strip_outer_braces ?x = ?i"
    by (simp add: spec_strip_outer_braces_def str_def py_ord_def)
  have c: "first_comma_top_level ?i"
    by (simp add: first_comma_top_level_def depth_at_def str_def py_ord_def)
  have a: "after_first (py_ord CHR '','') ?i = str '' Foo::bar(void (*)()))''"
    by (simp add: after_first_def str_def py_ord_def)
  have "normal_extraction (str '' Foo::bar(void (*)()))'') = Inr [str ''void (*)())'']"
    by (simp add: normal_extraction_def str_def py_ord_def py_split1_def py_rsplit1_def
      split_cpp_args_def bytearray_append_def push_def py_strip_def py_isspace_def)
  with original_after_first_comma [of ?x] i c a show ?thesis
    by simp
qed

lemma lambda_code:
  "demangle_arguments (str ''{lambda(int, float)#1}'') = Inr [str ''float'']"
  by (simp add: demangle_arguments_def str_def py_ord_def py_split1_def py_rsplit1_def
      py_lstrip_def py_rstrip_def split_cpp_args_def bytearray_append_def push_def
      py_strip_def py_isspace_def)

lemma lambda_original:
  "spec_brace_arguments (str ''{lambda(int, float)#1}'') = Inr []"
proof -
  let ?x = "str ''{lambda(int, float)#1}''"
  let ?i = "str ''lambda(int, float)#1''"
  have i: "spec_strip_outer_braces ?x = ?i"
    by (simp add: spec_strip_outer_braces_def str_def py_ord_def)
  have c: "first_comma_top_level ?i"
    by (simp add: first_comma_top_level_def depth_at_def str_def py_ord_def)
  have a: "after_first (py_ord CHR '','') ?i = str '' float)#1''"
    by (simp add: after_first_def str_def py_ord_def)
  have "normal_extraction (str '' float)#1'') = Inr []"
    by (simp add: normal_extraction_def str_def py_ord_def)
  with original_after_first_comma [of ?x] i c a show ?thesis
    by simp
qed

lemma vtable_map_code:
  "demangle_arguments (str ''{vtable(std::map<int, float>)}'') = Inr [str ''float>'']"
  by (simp add: demangle_arguments_def str_def py_ord_def py_split1_def py_rsplit1_def
      py_lstrip_def py_rstrip_def split_cpp_args_def bytearray_append_def push_def
      py_strip_def py_isspace_def)

lemma vtable_map_original:
  "spec_brace_arguments (str ''{vtable(std::map<int, float>)}'')
     = Inr [str ''std::map<int, float>'']"
proof -
  let ?x = "str ''{vtable(std::map<int, float>)}''"
  let ?i = "str ''vtable(std::map<int, float>)''"
  have i: "spec_strip_outer_braces ?x = ?i"
    by (simp add: spec_strip_outer_braces_def str_def py_ord_def)
  have t: "top_level_commas ?i = []"
    by (simp add: top_level_commas_def top_level_comma_def depth_at_def str_def py_ord_def
        upt_conv_Cons nth_Cons')
  have "normal_extraction ?i = Inr [str ''std::map<int, float>'']"
    by (simp add: normal_extraction_def str_def py_ord_def py_split1_def py_rsplit1_def
      split_cpp_args_def bytearray_append_def push_def py_strip_def py_isspace_def)
  with i t show ?thesis
    by (simp add: spec_brace_arguments_def spec_after_top_level_comma_def)
qed

text \<open>
  Each condition is needed: on the vtable, on the thunk with a function pointer and on
  the signature without a parenthesis after the comma, the amended extraction gives
  other fields than the code does.
\<close>

lemma amended_outside_conditions:
  "amended_brace_arguments (str ''{vtable(std::map<int, float>)}'')
     = Inr [str ''std::map<int, float>'']
   \<and> amended_brace_arguments
         (str ''{virtual override thunk({offset(-8)}, Foo::bar(void (*)()))}'')
     = Inr [str ''void (*)()'']
   \<and> amended_brace_arguments (str ''{lambda(int, float)#1}'') = Inr []"
proof -
  have v: "top_level_commas (str ''vtable(std::map<int, float>)'') = []"
    by (simp add: top_level_commas_def top_level_comma_def depth_at_def str_def py_ord_def
        upt_conv_Cons nth_Cons')
  have "between_parens (str ''vtable(std::map<int, float>)'') = str ''std::map<int, float>''"
    by (simp add: between_parens_def before_last_def after_first_def str_def py_ord_def)
  moreover have "strip_wrapper_paren (str ''std::map<int, float>'') = str ''std::map<int, float>''"
    by (simp add: strip_wrapper_paren_def str_def py_ord_def)
  moreover have "split_cpp_args (str ''std::map<int, float>'') = Inr [str ''std::map<int, float>'']"
    by (simp add: split_cpp_args_def str_def py_ord_def bytearray_append_def push_def
      py_strip_def py_isspace_def)
  ultimately have a: "amended_brace_arguments (str ''{vtable(std::map<int, float>)}'')
     = Inr [str ''std::map<int, float>'']"
    using v
    by (simp add: amended_brace_arguments_def spec_after_top_level_comma_def
        spec_strip_outer_braces_def) (simp add: str_def py_ord_def)
  have "first_comma_top_level (str ''virtual override thunk({offset(-8)}, Foo::bar(void (*)()))'')"
    by (simp add: first_comma_top_level_def depth_at_def str_def py_ord_def)
  then have "spec_after_top_level_comma
      (str ''virtual override thunk({offset(-8)}, Foo::bar(void (*)()))'')
      = str '' Foo::bar(void (*)()))''"
    by (simp add: after_top_level_comma_first) (simp add: after_first_def str_def py_ord_def)
  moreover have "between_parens (str '' Foo::bar(void (*)()))'') = str ''void (*)())''"
    by (simp add: between_parens_def before_last_def after_first_def str_def py_ord_def)
  moreover have "strip_wrapper_paren (str ''void (*)())'') = str ''void (*)()''"
    by (simp add: strip_wrapper_paren_def paren_balance_def str_def py_ord_def)
  moreover have "split_cpp_args (str ''void (*)()'') = Inr [str ''void (*)()'']"
    by (simp add: split_cpp_args_def str_def py_ord_def bytearray_append_def push_def
      py_strip_def py_isspace_def)
  ultimately have b: "amended_brace_arguments
         (str ''{virtual override thunk({offset(-8)}, Foo::bar(void (*)()))}'')
     = Inr [str ''void (*)()'']"
    by (simp add: amended_brace_arguments_def spec_strip_outer_braces_def)
      (simp add: str_def py_ord_def)
  have "first_comma_top_level (str ''lambda(int, float)#1'')"
    by (simp add: first_comma_top_level_def depth_at_def str_def py_ord_def)
  then have "spec_after_top_level_comma (str ''lambda(int, float)#1'') = str '' float)#1''"
    by (simp add: after_top_level_comma_first) (simp add: after_first_def str_def py_ord_def)
  then have c: "amended_brace_arguments (str ''{lambda(int, float)#1}'') = Inr []"
    by (simp add: amended_brace_arguments_def spec_strip_outer_braces_def)
      (simp add: str_def py_ord_def)
  from a b c show ?thesis
    by simp
qed

text \<open>
  C7 as stated fails on four wrapped signatures. On a virtual override thunk the
  extraction used for other signatures would leave \<^verbatim>\<open>int)\<close>, while the code returns
  \<^verbatim>\<open>int\<close>. On a vtable of a template with two arguments the code cuts at the comma
  inside the angle brackets. On a thunk whose last argument is a function pointer the
  code takes the pointer's own \<^verbatim>\<open>)\<close> off as well. And where the remainder has no
  \<^verbatim>\<open>(\<close> the code splits the remainder itself instead of returning nothing.
\<close>

theorem brace_extraction_differs:
  "wrapped_in_braces (str ''{virtual override thunk({offset(-8)}, Foo::bar(int))}'')
   \<and> demangle_arguments (str ''{virtual override thunk({offset(-8)}, Foo::bar(int))}'')
       = Inr [str ''int'']
   \<and> spec_brace_arguments (str ''{virtual override thunk({offset(-8)}, Foo::bar(int))}'')
       = Inr [str ''int)'']
   \<and> wrapped_in_braces (str ''{vtable(std::map<int, float>)}'')
   \<and> demangle_arguments (str ''{vtable(std::map<int, float>)}'') = Inr [str ''float>'']
   \<and> spec_brace_arguments (str ''{vtable(std::map<int, float>)}'')
       = Inr [str ''std::map<int, float>'']
   \<and> wrapped_in_braces (str ''{virtual override thunk({offset(-8)}, Foo::bar(void (*)()))}'')
   \<and> demangle_arguments
         (str ''{virtual override thunk({offset(-8)}, Foo::bar(void (*)()))}'')
       = Inr [str ''void (*)('']
   \<and> spec_brace_arguments
         (str ''{virtual override thunk({offset(-8)}, Foo::bar(void (*)()))}'')
       = Inr [str ''void (*)())'']
   \<and> wrapped_in_braces (str ''{lambda(int, float)#1}'')
   \<and> demangle_arguments (str ''{lambda(int, float)#1}'') = Inr [str ''float'']
   \<and> spec_brace_arguments (str ''{lambda(int, float)#1}'') = Inr []"
proof -
  have "wrapped_in_braces (str ''{virtual override thunk({offset(-8)}, Foo::bar(int))}'')"
    "wrapped_in_braces (str ''{vtable(std::map<int, float>)}'')"
    "wrapped_in_braces (str ''{virtual override thunk({offset(-8)}, Foo::bar(void (*)()))}'')"
    "wrapped_in_braces (str ''{lambda(int, float)#1}'')"
    by (simp_all add: wrapped_in_braces_def str_def py_ord_def)
  then show ?thesis
    using thunk_code thunk_int_original vtable_map_code vtable_map_original
      thunk_function_pointer thunk_pointer_original lambda_code lambda_original
    by simp
qed

end
